theory Spec2Isabelle
  imports Main
begin

section \<open>Python values and exceptions\<close>

text \<open>
  The values that cross the wire are what the codec hands to the server and the client:
  \<open>None\<close>, booleans, integers, strings, lists and dictionaries. A dictionary is kept as
  the list of its items (keys distinct, read with \<open>map_of\<close>). Arrays and non-integer
  numbers are payload that neither side inspects; they are not represented. A string is a
  Python 3 \<open>str\<close>: each character stands for the code point of the same number, so the
  strings represented are those of code points below 256.
\<close>

datatype pyval =
    PNone
  | PBool bool
  | PInt int
  | PStr string
  | PList "pyval list"
  | PDict "(string \<times> pyval) list"

text \<open>
  An exception is known to the program through two renderings only: \<open>str(ex_type)\<close> and
  \<open>str(ex_value)\<close> (server.py, line 102, and \<open>Exception(msg)\<close> on the client).
  The texts of the exceptions that the interpreter itself raises are those of CPython 3
  (the text for a string subscripted by a string is the one of the versions up to 3.10).
\<close>

datatype exn = Exn (type_str: string) (value_str: string)

definition sq :: "string \<Rightarrow> string" where
  "sq s = CHR 0x27 # s @ [CHR 0x27]"

definition str_class :: "string \<Rightarrow> string" where
  "str_class n = ''<class '' @ sq n @ ''>''"

definition Exception :: "string \<Rightarrow> exn" where
  "Exception msg = Exn (str_class ''Exception'') msg"

text \<open>
  \<open>repr\<close> of a string. The quote is the double quote when the string holds a single
  quote and no double quote, and the single quote otherwise; a backslash and the quote
  are escaped with a backslash, tab, newline and return are written \<open>\t\<close>, \<open>\n\<close>,
  \<open>\r\<close>, and the other characters that are not printable (code points 0 to 31, 127 to
  160 and 173) are written \<open>\xhh\<close>.
\<close>

definition hex_digit :: "nat \<Rightarrow> char" where
  "hex_digit d = (if d < 10 then char_of (48 + d) else char_of (87 + d))"

definition repr_char :: "char \<Rightarrow> char \<Rightarrow> string" where
  "repr_char q c =
     (let n = (of_char c :: nat) in
      if c = q \<or> n = 92 then [CHR 0x5C, c]
      else if n = 9 then [CHR 0x5C, CHR ''t'']
      else if n = 10 then [CHR 0x5C, CHR ''n'']
      else if n = 13 then [CHR 0x5C, CHR ''r'']
      else if n < 32 \<or> (127 \<le> n \<and> n \<le> 160) \<or> n = 173
        then [CHR 0x5C, CHR ''x'', hex_digit (n div 16), hex_digit (n mod 16)]
      else [c])"

definition repr_str :: "string \<Rightarrow> string" where
  "repr_str s =
     (let q = (if CHR 0x27 \<in> set s \<and> CHR 0x22 \<notin> set s then CHR 0x22 else CHR 0x27)
      in q # concat (map (repr_char q) s) @ [q])"

definition KeyError :: "string \<Rightarrow> exn" where
  "KeyError k = Exn (str_class ''KeyError'') (repr_str k)"

definition TypeError :: "string \<Rightarrow> exn" where
  "TypeError msg = Exn (str_class ''TypeError'') msg"

definition AttributeError :: "string \<Rightarrow> exn" where
  "AttributeError msg = Exn (str_class ''AttributeError'') msg"

fun type_name :: "pyval \<Rightarrow> string" where
  "type_name PNone = ''NoneType''"
| "type_name (PBool b) = ''bool''"
| "type_name (PInt i) = ''int''"
| "type_name (PStr s) = ''str''"
| "type_name (PList xs) = ''list''"
| "type_name (PDict d) = ''dict''"

definition no_attribute :: "string \<Rightarrow> string \<Rightarrow> exn" where
  "no_attribute ty a = AttributeError (sq ty @ '' object has no attribute '' @ sq a)"

text \<open>\<open>v[k]\<close> for a string key \<open>k\<close>.\<close>

fun subscript :: "pyval \<Rightarrow> string \<Rightarrow> exn + pyval" where
  "subscript (PDict d) k = (case map_of d k of None \<Rightarrow> Inl (KeyError k) | Some v \<Rightarrow> Inr v)"
| "subscript (PList xs) k = Inl (TypeError ''list indices must be integers or slices, not str'')"
| "subscript (PStr s) k = Inl (TypeError ''string indices must be integers'')"
| "subscript v k = Inl (TypeError (sq (type_name v) @ '' object is not subscriptable''))"

text \<open>\<open>v.get(k, None)\<close>: only a dictionary has the method.\<close>

fun py_get :: "pyval \<Rightarrow> string \<Rightarrow> exn + pyval" where
  "py_get (PDict d) k = Inr (case map_of d k of None \<Rightarrow> PNone | Some v \<Rightarrow> v)"
| "py_get v k = Inl (no_attribute (type_name v) ''get'')"

text \<open>
  \<open>'%s' % v\<close> and \<open>str(v)\<close>: a string is inserted as it is, any other value by its
  \<open>repr\<close>.
\<close>

function show_nat :: "nat \<Rightarrow> string" where
  "show_nat n = (if n < 10 then [char_of (48 + n)] else show_nat (n div 10) @ [char_of (48 + n mod 10)])"
  by pat_completeness auto
termination
  by (relation "measure (\<lambda>n. n)") auto

definition show_int :: "int \<Rightarrow> string" where
  "show_int i = (if i < 0 then CHR ''-'' # show_nat (nat (- i)) else show_nat (nat i))"

fun join_comma :: "string list \<Rightarrow> string" where
  "join_comma [] = []"
| "join_comma [x] = x"
| "join_comma (x # y # ys) = x @ '', '' @ join_comma (y # ys)"

fun py_repr :: "pyval \<Rightarrow> string" where
  "py_repr PNone = ''None''"
| "py_repr (PBool b) = (if b then ''True'' else ''False'')"
| "py_repr (PInt i) = show_int i"
| "py_repr (PStr s) = repr_str s"
| "py_repr (PList xs) = ''['' @ join_comma (map py_repr xs) @ '']''"
| "py_repr (PDict d) = ''{'' @ join_comma (map (\<lambda>kv. repr_str (fst kv) @ '': '' @ py_repr (snd kv)) d) @ ''}''"

definition py_str :: "pyval \<Rightarrow> string" where
  "py_str v = (case v of PStr s \<Rightarrow> s | _ \<Rightarrow> py_repr v)"

text \<open>
  \<open>a == b\<close>. A boolean is the integer 1 or 0; lists are equal when they have the same
  length and equal elements in order; dictionaries are equal when they have the same keys
  and equal values under each key, whatever the order of the items; values of different
  kinds are not equal. \<open>a != b\<close> is the negation.
\<close>

fun py_eq :: "pyval \<Rightarrow> pyval \<Rightarrow> bool"
  and py_eq_list :: "pyval list \<Rightarrow> pyval list \<Rightarrow> bool"
  and py_eq_items :: "(string \<times> pyval) list \<Rightarrow> (string \<times> pyval) list \<Rightarrow> bool" where
  "py_eq PNone b = (b = PNone)"
| "py_eq (PBool x) b =
     (case b of PBool y \<Rightarrow> x = y | PInt j \<Rightarrow> (if x then 1 else 0) = j | _ \<Rightarrow> False)"
| "py_eq (PInt i) b =
     (case b of PBool y \<Rightarrow> i = (if y then 1 else 0) | PInt j \<Rightarrow> i = j | _ \<Rightarrow> False)"
| "py_eq (PStr s) b = (b = PStr s)"
| "py_eq (PList xs) b = (case b of PList ys \<Rightarrow> py_eq_list xs ys | _ \<Rightarrow> False)"
| "py_eq (PDict d) b =
     (case b of
        PDict d' \<Rightarrow> set (map fst d) = set (map fst d') \<and> py_eq_items d d'
      | _ \<Rightarrow> False)"
| "py_eq_list [] ys = (ys = [])"
| "py_eq_list (x # xs) ys =
     (case ys of [] \<Rightarrow> False | y # ys' \<Rightarrow> py_eq x y \<and> py_eq_list xs ys')"
| "py_eq_items [] d' = True"
| "py_eq_items (kv # d) d' =
     ((case map_of d' (fst kv) of None \<Rightarrow> False | Some v' \<Rightarrow> py_eq (snd kv) v') \<and>
      py_eq_items d d')"

section \<open>The environment capability interface\<close>

text \<open>
  The environment and its factory are injected (\<open>make_env\<close>, server.py line 24). An
  environment object of type \<open>'e\<close> is mutated by its methods, so every method returns the
  object after the call, also when it raises. \<open>env_step\<close> returns the four values that
  line 117 unpacks.
\<close>

record 'e environment =
  make_env :: "pyval \<Rightarrow> exn + 'e"
  env_reset :: "'e \<Rightarrow> (exn + pyval) \<times> 'e"
  env_step :: "'e \<Rightarrow> pyval \<Rightarrow> (exn + pyval \<times> pyval \<times> pyval \<times> pyval) \<times> 'e"
  env_render :: "'e \<Rightarrow> pyval \<Rightarrow> pyval \<Rightarrow> (exn + pyval) \<times> 'e"
  env_close :: "'e \<Rightarrow> exn option \<times> 'e"
  observation_space :: "'e \<Rightarrow> pyval"
  action_space :: "'e \<Rightarrow> pyval"
  reward_range :: "'e \<Rightarrow> pyval"

datatype env_call = Call_reset | Call_step pyval | Call_render pyval pyval | Call_close

section \<open>GymProxyZmqServer (server.py)\<close>

text \<open>
  The attributes of the server object that the handlers read and write. \<open>session_id\<close> and
  \<open>op_count\<close> are not assigned by \<open>__init__\<close>: \<open>None\<close> here means that the attribute
  does not exist yet, and reading it raises AttributeError. \<open>env_name\<close> holds a Python
  value, \<open>PNone\<close> for \<open>None\<close>. \<open>env_calls\<close> is the trace of the method calls made on
  environment objects, in order; it is how the model shows the effect of the server on
  its collaborator.
\<close>

record 'e server =
  env :: "'e option"
  env_name :: pyval
  session_id :: "string option"
  op_count :: "int option"
  env_calls :: "env_call list"

definition init_server :: "'e server" where
  "init_server = \<lparr>env = None, env_name = PNone, session_id = None, op_count = None, env_calls = []\<rparr>"

text \<open>
  The first two lines of \<open>handle_reset\<close>, \<open>handle_step\<close>, \<open>handle_close\<close> and
  \<open>handle_render\<close>: \<open>if params['session_id'] != self.session_id: raise Exception('Wrong session id')\<close>.
  The result is the session id when the check passes.
\<close>

definition check_session_id :: "pyval \<Rightarrow> 'e server \<Rightarrow> exn + string" where
  "check_session_id params s =
     (case subscript params ''session_id'' of
        Inl x \<Rightarrow> Inl x
      | Inr p \<Rightarrow>
          (case session_id s of
             None \<Rightarrow> Inl (no_attribute ''GymProxyZmqServer'' ''session_id'')
           | Some sid \<Rightarrow> if p \<noteq> PStr sid then Inl (Exception ''Wrong session id'') else Inr sid))"

definition handle_reset :: "'e environment \<Rightarrow> pyval \<Rightarrow> 'e server \<Rightarrow> (exn + pyval) \<times> 'e server" where
  "handle_reset E params s =
     (case check_session_id params s of
        Inl x \<Rightarrow> (Inl x, s)
      | Inr sid \<Rightarrow>
          (case env s of
             None \<Rightarrow> (Inl (no_attribute ''NoneType'' ''reset''), s)
           | Some e \<Rightarrow>
               (case env_reset E e of (r, e') \<Rightarrow>
                  let s' = s\<lparr>env := Some e', env_calls := env_calls s @ [Call_reset]\<rparr> in
                  (case r of
                     Inl x \<Rightarrow> (Inl x, s')
                   | Inr obs \<Rightarrow> (Inr (PDict [(''obs'', obs), (''session_id'', PStr sid)]), s')))))"

definition handle_step :: "'e environment \<Rightarrow> pyval \<Rightarrow> 'e server \<Rightarrow> (exn + pyval) \<times> 'e server" where
  "handle_step E params s =
     (case check_session_id params s of
        Inl x \<Rightarrow> (Inl x, s)
      | Inr sid \<Rightarrow>
          (case subscript params ''action'' of
             Inl x \<Rightarrow> (Inl x, s)
           | Inr action \<Rightarrow>
               (case env s of
                  None \<Rightarrow> (Inl (no_attribute ''NoneType'' ''step''), s)
                | Some e \<Rightarrow>
                    (case env_step E e action of (r, e') \<Rightarrow>
                       let s' = s\<lparr>env := Some e', env_calls := env_calls s @ [Call_step action]\<rparr> in
                       (case r of
                          Inl x \<Rightarrow> (Inl x, s')
                        | Inr (obs, reward, done, info) \<Rightarrow>
                            (Inr (PDict [(''obs'', obs), (''reward'', reward), (''done'', done),
                                         (''info'', info), (''session_id'', PStr sid)]), s'))))))"

text \<open>
  \<open>cookie\<close> is the value that \<open>zmq_serialize.mk_random_cookie()\<close> returns when line 131
  calls it.
\<close>

definition handle_setup :: "'e environment \<Rightarrow> string \<Rightarrow> pyval \<Rightarrow> 'e server \<Rightarrow> (exn + pyval) \<times> 'e server" where
  "handle_setup E cookie params s =
     (if env_name s \<noteq> PNone then (Inl (Exception ''Already set up''), s)
      else
        (case subscript params ''env_name'' of
           Inl x \<Rightarrow> (Inl x, s)
         | Inr name \<Rightarrow>
             (case make_env E name of
                Inl x \<Rightarrow> (Inl x, s)
              | Inr e \<Rightarrow>
                  (Inr (PDict [(''observation_space'', observation_space E e),
                               (''action_space'', action_space E e),
                               (''reward_range'', reward_range E e),
                               (''session_id'', PStr cookie)]),
                   s\<lparr>env := Some e, env_name := name, session_id := Some cookie\<rparr>))))"

text \<open>
  Line 145, \<open>if self.env:\<close>, tests the truth value of the environment object; an
  environment is an instance of \<open>gym.Env\<close>, which is true, so the test is \<open>env \<noteq> None\<close>.
\<close>

definition handle_close :: "'e environment \<Rightarrow> pyval \<Rightarrow> 'e server \<Rightarrow> (exn + pyval) \<times> 'e server" where
  "handle_close E params s =
     (case check_session_id params s of
        Inl x \<Rightarrow> (Inl x, s)
      | Inr sid \<Rightarrow>
          let s1 = s\<lparr>env_name := PNone\<rparr> in
          (case env s of
             None \<Rightarrow> (Inr (PDict [(''session_id'', PStr sid)]), s1\<lparr>env := None\<rparr>)
           | Some e \<Rightarrow>
               (case env_close E e of
                  (Some x, e') \<Rightarrow>
                    (Inl x, s1\<lparr>env := Some e', env_calls := env_calls s @ [Call_close]\<rparr>)
                | (None, e') \<Rightarrow>
                    (Inr (PDict [(''session_id'', PStr sid)]),
                     s1\<lparr>env := None, env_calls := env_calls s @ [Call_close]\<rparr>))))"

definition handle_render :: "'e environment \<Rightarrow> pyval \<Rightarrow> 'e server \<Rightarrow> (exn + pyval) \<times> 'e server" where
  "handle_render E params s =
     (case check_session_id params s of
        Inl x \<Rightarrow> (Inl x, s)
      | Inr sid \<Rightarrow>
          (case subscript params ''mode'' of
             Inl x \<Rightarrow> (Inl x, s)
           | Inr mode \<Rightarrow>
               (case subscript params ''close'' of
                  Inl x \<Rightarrow> (Inl x, s)
                | Inr cl \<Rightarrow>
                    (case env s of
                       None \<Rightarrow> (Inl (no_attribute ''NoneType'' ''render''), s)
                     | Some e \<Rightarrow>
                         (case env_render E e mode cl of (r, e') \<Rightarrow>
                            let s' = s\<lparr>env := Some e', env_calls := env_calls s @ [Call_render mode cl]\<rparr> in
                            (case r of
                               Inl x \<Rightarrow> (Inl x, s')
                             | Inr img \<Rightarrow>
                                 (Inr (PDict [(''img'', img), (''session_id'', PStr sid)]), s')))))))"

text \<open>
  The body of the \<open>try\<close> of \<open>handle_msg\<close> (lines 87 to 98), without the call of
  \<open>reply\<close>: the handler's result, or the exception it raises.
\<close>

definition dispatch ::
  "'e environment \<Rightarrow> string \<Rightarrow> pyval \<Rightarrow> pyval \<Rightarrow> 'e server \<Rightarrow> (exn + pyval) \<times> 'e server" where
  "dispatch E cookie rpc_method rpc_params s =
     (if rpc_method = PStr ''step'' then handle_step E rpc_params s
      else if rpc_method = PStr ''reset'' then handle_reset E rpc_params s
      else if rpc_method = PStr ''setup'' then handle_setup E cookie rpc_params s
      else if rpc_method = PStr ''close'' then handle_close E rpc_params s
      else if rpc_method = PStr ''render'' then handle_render E rpc_params s
      else (Inl (Exception (''unknown method '' @ py_str rpc_method)), s))"

text \<open>
  What \<open>handle_msg\<close> does with one received message: it sends one reply (the envelope
  given to \<open>dump_msg\<close>), or an exception leaves it and no reply is sent. Encoding and
  sending a reply are taken to succeed. The server's log records have no effect on the
  session and are left out.
\<close>

datatype outcome = Replied pyval | Crashed exn

definition envelope :: "pyval \<Rightarrow> pyval \<Rightarrow> pyval" where
  "envelope rpc_result rpc_error = PDict [(''result'', rpc_result), (''error'', rpc_error)]"

definition error_text :: "exn \<Rightarrow> string" where
  "error_text x = type_str x @ '': '' @ value_str x"

text \<open>
  \<open>rx\<close> is the received message as \<open>zmq_serialize.load_msg\<close> (line 71) sees it: the
  decoded value, or the exception that decoding raises.
\<close>

definition handle_msg ::
  "'e environment \<Rightarrow> string \<Rightarrow> exn + pyval \<Rightarrow> 'e server \<Rightarrow> outcome \<times> 'e server" where
  "handle_msg E cookie rx s =
     (case rx of
        Inl x \<Rightarrow> (Crashed x, s)
      | Inr rpc \<Rightarrow>
          (case py_get rpc ''method'' of
             Inl x \<Rightarrow> (Crashed x, s)
           | Inr rpc_method \<Rightarrow>
               (case py_get rpc ''params'' of
                  Inl x \<Rightarrow> (Crashed x, s)
                | Inr rpc_params \<Rightarrow>
                    (case op_count s of
                       None \<Rightarrow> (Crashed (no_attribute ''GymProxyZmqServer'' ''op_count''), s)
                     | Some n \<Rightarrow>
                         (case dispatch E cookie rpc_method rpc_params (s\<lparr>op_count := Some (n + 1)\<rparr>) of
                            (Inr r, s') \<Rightarrow> (Replied (envelope r PNone), s')
                          | (Inl x, s') \<Rightarrow> (Replied (envelope PNone (PStr (error_text x))), s'))))))"

text \<open>
  \<open>run_main\<close> on the messages received so far, each with the cookie that a setup would
  draw. The result is the replies sent, the exception that ended the loop if one did, and
  the server afterwards. The loop has no handler of its own: an exception that leaves
  \<open>handle_msg\<close> ends it.
\<close>

fun run_main ::
  "'e environment \<Rightarrow> ((exn + pyval) \<times> string) list \<Rightarrow> 'e server \<Rightarrow> (pyval list \<times> exn option) \<times> 'e server" where
  "run_main E [] s = (([], None), s)"
| "run_main E ((rx, cookie) # rest) s =
     (case handle_msg E cookie rx s of
        (Crashed x, s') \<Rightarrow> (([], Some x), s')
      | (Replied tx, s') \<Rightarrow>
          (case run_main E rest s' of ((txs, r), s'') \<Rightarrow> ((tx # txs, r), s'')))"

subsection \<open>The monitor thread\<close>

datatype monitor_event = EVENT_DISCONNECTED | EVENT_ACCEPTED | EVENT_OTHER

definition opened :: "'e server \<Rightarrow> 'e server" where
  "opened s = s\<lparr>env_name := PNone, op_count := Some 0\<rparr>"

definition closed :: "'e environment \<Rightarrow> 'e server \<Rightarrow> exn option \<times> 'e server" where
  "closed E s =
     (let s1 = s\<lparr>env_name := PNone\<rparr> in
      (case env s of
         None \<Rightarrow> (None, s1\<lparr>env := None\<rparr>)
       | Some e \<Rightarrow>
           (case env_close E e of
              (Some x, e') \<Rightarrow> (Some x, s1\<lparr>env := Some e', env_calls := env_calls s @ [Call_close]\<rparr>)
            | (None, e') \<Rightarrow> (None, s1\<lparr>env := None, env_calls := env_calls s @ [Call_close]\<rparr>))))"

text \<open>
  \<open>run_monitor\<close> on the events observed so far; like \<open>run_main\<close> it ends with the first
  exception that reaches it.
\<close>

fun run_monitor :: "'e environment \<Rightarrow> monitor_event list \<Rightarrow> 'e server \<Rightarrow> exn option \<times> 'e server" where
  "run_monitor E [] s = (None, s)"
| "run_monitor E (EVENT_DISCONNECTED # evs) s =
     (case closed E s of
        (Some x, s') \<Rightarrow> (Some x, s')
      | (None, s') \<Rightarrow> run_monitor E evs s')"
| "run_monitor E (EVENT_ACCEPTED # evs) s = run_monitor E evs (opened s)"
| "run_monitor E (EVENT_OTHER # evs) s = run_monitor E evs s"

subsection \<open>Session state\<close>

text \<open>
  A session is active when both the environment name and the environment are set. The
  states of a running server are those that the two threads produce from the state that
  \<open>__init__\<close> leaves, one handler or monitor callback at a time.
\<close>

definition active :: "'e server \<Rightarrow> bool" where
  "active s \<longleftrightarrow> env_name s \<noteq> PNone \<and> env s \<noteq> None"

inductive reachable :: "'e environment \<Rightarrow> 'e server \<Rightarrow> bool" for E :: "'e environment" where
  reach_init: "reachable E init_server"
| reach_msg: "reachable E s \<Longrightarrow> reachable E (snd (handle_msg E cookie rx s))"
| reach_opened: "reachable E s \<Longrightarrow> reachable E (opened s)"
| reach_closed: "reachable E s \<Longrightarrow> reachable E (snd (closed E s))"

text \<open>A request as the client's \<open>rpc\<close> builds it (client.py, lines 32 to 35).\<close>

definition request :: "string \<Rightarrow> pyval \<Rightarrow> pyval" where
  "request method params = PDict [(''method'', PStr method), (''params'', params)]"

subsection \<open>A small environment for concrete runs\<close>

text \<open>
  The environment counts its steps. It accepts the actions 0 and 1 and raises on any
  other action; its factory knows the one name \<open>Toy-v0\<close>.
\<close>

definition toy :: "nat environment" where
  "toy = \<lparr>
     make_env = (\<lambda>name. if name = PStr ''Toy-v0'' then Inr 0
                        else Inl (Exn (str_class ''gym.error.UnregisteredEnv'') (''No registered env with id: '' @ py_str name))),
     env_reset = (\<lambda>e. (Inr (PInt 0), 0)),
     env_step = (\<lambda>e a. if a = PInt 0 \<or> a = PInt 1
                        then (Inr (PInt (int e + 1), PInt 1, PBool False, PDict []), e + 1)
                        else (Inl (Exn (str_class ''ValueError'') ''invalid action''), e)),
     env_render = (\<lambda>e mode cl. (Inr PNone, e)),
     env_close = (\<lambda>e. (None, e)),
     observation_space = (\<lambda>e. PStr ''Discrete(100)''),
     action_space = (\<lambda>e. PStr ''Discrete(2)''),
     reward_range = (\<lambda>e. PList [PInt 0, PInt 1])\<rparr>"

text \<open>The server after a connection was accepted and \<open>setup\<close> drew the cookie \<open>abc123\<close>.\<close>

definition toy_session :: "nat server" where
  "toy_session = \<lparr>env = Some 0, env_name = PStr ''Toy-v0'', session_id = Some ''abc123'',
                  op_count = Some 1, env_calls = []\<rparr>"

text \<open>A reply with a null result and an error text.\<close>

definition is_error_reply :: "pyval \<Rightarrow> bool" where
  "is_error_reply tx \<longleftrightarrow>
     (case subscript tx ''error'' of
        Inr (PStr msg) \<Rightarrow> subscript tx ''result'' = Inr PNone
      | _ \<Rightarrow> False)"

text \<open>The concrete session after a close request with its session id.\<close>

definition toy_closed :: "nat server" where
  "toy_closed = \<lparr>env = None, env_name = PNone, session_id = Some ''abc123'',
                 op_count = Some 2, env_calls = [Call_close]\<rparr>"

section \<open>GymProxyClient (client.py)\<close>

subsection \<open>Environment variable references in the URL\<close>

text \<open>
  \<open>\w\<close> of the pattern \<open>\$(\w+)\<close> on a Python 3 \<open>str\<close>: the underscore and the
  alphanumeric code points. Below 256 these are the ASCII digits and letters, the
  ordinal indicators (170, 186), the superscript digits (178, 179, 185), the micro sign
  (181), the fractions (188 to 190) and the Latin-1 letters (192 to 255 without the
  multiplication and division signs, 215 and 247).
\<close>

definition is_word_char :: "char \<Rightarrow> bool" where
  "is_word_char c \<longleftrightarrow>
     (let n = (of_char c :: nat)
      in (48 \<le> n \<and> n \<le> 57) \<or> (65 \<le> n \<and> n \<le> 90) \<or> n = 95 \<or> (97 \<le> n \<and> n \<le> 122) \<or>
         n = 170 \<or> (178 \<le> n \<and> n \<le> 179) \<or> n = 181 \<or> (185 \<le> n \<and> n \<le> 186) \<or>
         (188 \<le> n \<and> n \<le> 190) \<or> (192 \<le> n \<and> n \<le> 214) \<or> (216 \<le> n \<and> n \<le> 246) \<or>
         (248 \<le> n \<and> n \<le> 255))"

text \<open>
  The callback \<open>expand_env\<close> (lines 57 to 61) on the name that the group matched:
  the value of \<open>os.environ.get(name, None)\<close>, and the warning it logs when there is
  none. The lookup encodes the name with the file system encoding, which is taken to
  encode every name (as UTF-8, the default, does).
\<close>

definition expand_env :: "(string \<rightharpoonup> string) \<Rightarrow> string \<Rightarrow> string option \<times> string list" where
  "expand_env environ name =
     (case environ name of
        None \<Rightarrow> (None, [''No environment var $'' @ name @ '' defined''])
      | Some v \<Rightarrow> (Some v, []))"

text \<open>
  \<open>re.sub(r'\$(\w+)', expand_env, url)\<close> (line 62): the string is scanned from the
  left; a dollar sign followed by at least one word character matches together with all
  the word characters that follow, and the match is replaced by what the callback
  returns, where \<open>re.sub\<close> takes \<open>None\<close> for the empty string. Replaced text is not
  scanned again. The second component collects the warnings in the order they are logged.
\<close>

function re_sub_env :: "(string \<rightharpoonup> string) \<Rightarrow> string \<Rightarrow> string \<times> string list" where
  "re_sub_env environ [] = ([], [])"
| "re_sub_env environ (c # cs) =
     (if c = CHR ''$'' \<and> takeWhile is_word_char cs \<noteq> []
      then
        (case expand_env environ (takeWhile is_word_char cs) of (ret, w1) \<Rightarrow>
           (case re_sub_env environ (dropWhile is_word_char cs) of (out, w2) \<Rightarrow>
              ((case ret of None \<Rightarrow> [] | Some v \<Rightarrow> v) @ out, w1 @ w2)))
      else
        (case re_sub_env environ cs of (out, w2) \<Rightarrow> (c # out, w2)))"
  by pat_completeness auto
termination
  by (relation "measure (\<lambda>(environ, url). length url)")
     (auto simp: length_dropWhile_le less_Suc_eq_le)

subsection \<open>GymProxyClientSocket\<close>

text \<open>
  The far end of the socket is a parameter: \<open>connect\<close> opens the connection for a URL (or
  raises), and \<open>serve\<close> takes the request that \<open>rpc\<close> sends and gives the decoded
  answer (or the exception that receiving or decoding raises), with the far end's next
  state. A far end that never answers is not represented. \<open>sent\<close> records the requests
  sent on the socket.
\<close>

record 'c transport =
  connect :: "string \<Rightarrow> exn + 'c"
  serve :: "'c \<Rightarrow> pyval \<Rightarrow> (exn + pyval) \<times> 'c"

record 'c client_socket =
  sock_url :: string
  sent :: "pyval list"
  peer :: 'c

definition client_socket_init :: "'c transport \<Rightarrow> string \<Rightarrow> exn + 'c client_socket" where
  "client_socket_init T url =
     (case connect T url of
        Inl x \<Rightarrow> Inl x
      | Inr c \<Rightarrow> Inr \<lparr>sock_url = url, sent = [], peer = c\<rparr>)"

definition rpc ::
  "'c transport \<Rightarrow> string \<Rightarrow> pyval \<Rightarrow> 'c client_socket \<Rightarrow> (exn + pyval) \<times> 'c client_socket" where
  "rpc T method params sock =
     (let tx = request method params in
      (case serve T (peer sock) tx of (rx, c') \<Rightarrow>
         let sock' = sock\<lparr>sent := sent sock @ [tx], peer := c'\<rparr> in
         (case rx of
            Inl x \<Rightarrow> (Inl x, sock')
          | Inr rpc_ans \<Rightarrow>
              (case subscript rpc_ans ''error'' of
                 Inl x \<Rightarrow> (Inl x, sock')
               | Inr err \<Rightarrow>
                   if err \<noteq> PNone then (Inl (Exception (py_str err)), sock')
                   else
                     (case subscript rpc_ans ''result'' of
                        Inl x \<Rightarrow> (Inl x, sock')
                      | Inr r \<Rightarrow> (Inr r, sock'))))))"

subsection \<open>GymProxyClient\<close>

text \<open>\<open>tuple(v)\<close> (line 68).\<close>

fun py_tuple :: "pyval \<Rightarrow> exn + pyval list" where
  "py_tuple (PList xs) = Inr xs"
| "py_tuple (PStr s) = Inr (map (\<lambda>c. PStr [c]) s)"
| "py_tuple (PDict d) = Inr (map (\<lambda>kv. PStr (fst kv)) d)"
| "py_tuple v = Inl (TypeError (sq (type_name v) @ '' object is not iterable''))"

text \<open>
  The attributes that \<open>__init__\<close> assigns. \<open>client_reset\<close>, \<open>client_step\<close> and
  \<open>client_render\<close> are the methods \<open>_reset\<close>, \<open>_step\<close> and \<open>_render\<close>;
  \<open>client_socket_init\<close> and \<open>client_init\<close> are the two constructors.
\<close>

record 'c client =
  proxy :: "'c client_socket"
  client_action_space :: pyval
  client_observation_space :: pyval
  client_reward_range :: "pyval list"
  client_session_id :: pyval

definition client_reset :: "'c transport \<Rightarrow> 'c client \<Rightarrow> (exn + pyval) \<times> 'c client" where
  "client_reset T self =
     (case rpc T ''reset'' (PDict [(''session_id'', client_session_id self)]) (proxy self) of
        (r, sock') \<Rightarrow>
          let self' = self\<lparr>proxy := sock'\<rparr> in
          (case r of
             Inl x \<Rightarrow> (Inl x, self')
           | Inr ret \<Rightarrow>
               (case subscript ret ''session_id'' of
                  Inl x \<Rightarrow> (Inl x, self')
                | Inr sid \<Rightarrow>
                    if \<not> py_eq sid (client_session_id self) then (Inl (Exception ''Wrong session id''), self')
                    else
                      (case subscript ret ''obs'' of
                         Inl x \<Rightarrow> (Inl x, self')
                       | Inr obs \<Rightarrow> (Inr obs, self')))))"

definition client_step :: "'c transport \<Rightarrow> pyval \<Rightarrow> 'c client \<Rightarrow> (exn + pyval \<times> pyval \<times> pyval \<times> pyval) \<times> 'c client" where
  "client_step T action self =
     (case rpc T ''step'' (PDict [(''action'', action), (''session_id'', client_session_id self)]) (proxy self) of
        (r, sock') \<Rightarrow>
          let self' = self\<lparr>proxy := sock'\<rparr> in
          (case r of
             Inl x \<Rightarrow> (Inl x, self')
           | Inr ret \<Rightarrow>
               (case subscript ret ''session_id'' of
                  Inl x \<Rightarrow> (Inl x, self')
                | Inr sid \<Rightarrow>
                    if \<not> py_eq sid (client_session_id self) then (Inl (Exception ''Wrong session id''), self')
                    else
                      (case subscript ret ''obs'' of
                         Inl x \<Rightarrow> (Inl x, self')
                       | Inr obs \<Rightarrow>
                           (case subscript ret ''reward'' of
                              Inl x \<Rightarrow> (Inl x, self')
                            | Inr reward \<Rightarrow>
                                (case subscript ret ''done'' of
                                   Inl x \<Rightarrow> (Inl x, self')
                                 | Inr done \<Rightarrow>
                                     (case subscript ret ''info'' of
                                        Inl x \<Rightarrow> (Inl x, self')
                                      | Inr info \<Rightarrow> (Inr (obs, reward, done, info), self'))))))))"

definition client_render :: "'c transport \<Rightarrow> pyval \<Rightarrow> pyval \<Rightarrow> 'c client \<Rightarrow> (exn + pyval) \<times> 'c client" where
  "client_render T mode cl self =
     (case rpc T ''render'' (PDict [(''mode'', mode), (''close'', cl), (''session_id'', client_session_id self)]) (proxy self) of
        (r, sock') \<Rightarrow>
          let self' = self\<lparr>proxy := sock'\<rparr> in
          (case r of
             Inl x \<Rightarrow> (Inl x, self')
           | Inr ret \<Rightarrow>
               (case subscript ret ''session_id'' of
                  Inl x \<Rightarrow> (Inl x, self')
                | Inr sid \<Rightarrow>
                    if \<not> py_eq sid (client_session_id self) then (Inl (Exception ''Wrong session id''), self')
                    else
                      (case subscript ret ''img'' of
                         Inl x \<Rightarrow> (Inl x, self')
                       | Inr img \<Rightarrow> (Inr img, self')))))"

text \<open>
  Modelled from the spec: \<open>Env.reset\<close> of \<open>gym/core.py\<close>, the public method that line 72
  calls as \<open>self.reset()\<close>, is not among the sources. The spec gives the client's reset as
  ``issues \<open>reset\<close> with \<open>{session_id}\<close>; same identity check'', which is \<open>_reset\<close>
  (lines 83 to 89): the public method hands over to it.
\<close>

definition gym_Env_reset :: "'c transport \<Rightarrow> 'c client \<Rightarrow> (exn + pyval) \<times> 'c client" where
  "gym_Env_reset T self = client_reset T self"

text \<open>
  \<open>GymProxyClient.__init__\<close>, with \<open>environ\<close> for \<open>os.environ\<close> and \<open>kwargs\<close> as a
  dictionary. The first component is the warnings logged. The second is the constructed
  client, or the exception that leaves the constructor together with the socket as it is
  then (\<open>None\<close> when the socket itself could not be made).
\<close>

definition client_init ::
  "'c transport \<Rightarrow> (string \<rightharpoonup> string) \<Rightarrow> string \<Rightarrow> pyval \<Rightarrow>
     string list \<times> (exn \<times> 'c client_socket option + 'c client)" where
  "client_init T environ url kwargs =
     (case re_sub_env environ url of (url', warnings) \<Rightarrow>
        (warnings,
         (case client_socket_init T url' of
            Inl x \<Rightarrow> Inl (x, None)
          | Inr sock0 \<Rightarrow>
              (case rpc T ''setup'' kwargs sock0 of
                 (Inl x, sock1) \<Rightarrow> Inl (x, Some sock1)
               | (Inr setup_result, sock1) \<Rightarrow>
                   (case subscript setup_result ''action_space'' of
                      Inl x \<Rightarrow> Inl (x, Some sock1)
                    | Inr asp \<Rightarrow>
                        (case subscript setup_result ''observation_space'' of
                           Inl x \<Rightarrow> Inl (x, Some sock1)
                         | Inr osp \<Rightarrow>
                             (case subscript setup_result ''reward_range'' of
                                Inl x \<Rightarrow> Inl (x, Some sock1)
                              | Inr rr \<Rightarrow>
                                  (case py_tuple rr of
                                     Inl x \<Rightarrow> Inl (x, Some sock1)
                                   | Inr rrt \<Rightarrow>
                                       (case subscript setup_result ''session_id'' of
                                          Inl x \<Rightarrow> Inl (x, Some sock1)
                                        | Inr sid \<Rightarrow>
                                            (case gym_Env_reset T
                                                    \<lparr>proxy = sock1, client_action_space = asp,
                                                     client_observation_space = osp,
                                                     client_reward_range = rrt,
                                                     client_session_id = sid\<rparr> of
                                               (Inl x, self') \<Rightarrow> Inl (x, Some (proxy self'))
                                             | (Inr obs, self') \<Rightarrow> Inr self'))))))))))"

text \<open>The socket as the constructor leaves it, whether it returns or raises.\<close>

definition final_socket :: "exn \<times> 'c client_socket option + 'c client \<Rightarrow> 'c client_socket option" where
  "final_socket r = (case r of Inl (x, so) \<Rightarrow> so | Inr self \<Rightarrow> Some (proxy self))"

text \<open>
  A far end for concrete runs: it accepts every URL and answers the requests, whatever
  they are, with the answers of a script, one after the other.
\<close>

definition scripted :: "pyval list \<Rightarrow> pyval list transport" where
  "scripted answers = \<lparr>
     connect = (\<lambda>url. Inr answers),
     serve = (\<lambda>c tx. case c of
                [] \<Rightarrow> (Inl (Exn (str_class ''zmq.error.ZMQError'') ''Connection reset by peer''), [])
              | a # as \<Rightarrow> (Inr a, as))\<rparr>"

text \<open>The arguments of a setup, and the answer of a server that sets the session up.\<close>

definition toy_kwargs :: pyval where
  "toy_kwargs = PDict [(''env_name'', PStr ''Toy-v0'')]"

definition toy_setup_answer :: pyval where
  "toy_setup_answer =
     envelope (PDict [(''observation_space'', PStr ''Discrete(100)''),
                      (''action_space'', PStr ''Discrete(2)''),
                      (''reward_range'', PList [PInt 0, PInt 1]),
                      (''session_id'', PStr ''abc123'')]) PNone"

section \<open>Properties of the session state\<close>

subsection \<open>States of a running server\<close>

text \<open>
  In every state of a running server, an environment name that is set comes with an
  environment, a session id and an operation counter: the name is assigned by
  \<open>handle_setup\<close> only, after the environment, and \<open>handle_msg\<close> reaches the handler
  only past the counter.
\<close>

definition session_inv :: "'e server \<Rightarrow> bool" where
  "session_inv s \<longleftrightarrow>
     (env_name s \<noteq> PNone \<longrightarrow> env s \<noteq> None \<and> session_id s \<noteq> None \<and> op_count s \<noteq> None)"

lemma handle_step_fields:
  "handle_step E p s = (r, s') \<Longrightarrow>
     env_name s' = env_name s \<and> session_id s' = session_id s \<and> op_count s' = op_count s \<and>
     (env s' = None \<longleftrightarrow> env s = None)"
  by (auto simp: handle_step_def Let_def split: sum.splits option.splits prod.splits)

lemma handle_reset_fields:
  "handle_reset E p s = (r, s') \<Longrightarrow>
     env_name s' = env_name s \<and> session_id s' = session_id s \<and> op_count s' = op_count s \<and>
     (env s' = None \<longleftrightarrow> env s = None)"
  by (auto simp: handle_reset_def Let_def split: sum.splits option.splits prod.splits)

lemma handle_render_fields:
  "handle_render E p s = (r, s') \<Longrightarrow>
     env_name s' = env_name s \<and> session_id s' = session_id s \<and> op_count s' = op_count s \<and>
     (env s' = None \<longleftrightarrow> env s = None)"
  by (auto simp: handle_render_def Let_def split: sum.splits option.splits prod.splits)

lemma handle_close_fields:
  "handle_close E p s = (r, s') \<Longrightarrow>
     session_id s' = session_id s \<and> op_count s' = op_count s \<and>
     (env_name s' = env_name s \<and> env s' = env s \<or> env_name s' = PNone)"
  by (auto simp: handle_close_def Let_def split: sum.splits option.splits prod.splits)

lemma handle_setup_fields:
  "handle_setup E c p s = (r, s') \<Longrightarrow>
     op_count s' = op_count s \<and> (s' = s \<or> env s' \<noteq> None \<and> session_id s' \<noteq> None)"
  by (auto simp: handle_setup_def Let_def split: sum.splits option.splits prod.splits if_splits)

lemma dispatch_inv:
  "dispatch E c m p s = (r, s') \<Longrightarrow> session_inv s \<Longrightarrow> op_count s \<noteq> None \<Longrightarrow> session_inv s'"
  unfolding dispatch_def session_inv_def
  by (auto split: if_splits
      dest!: handle_step_fields handle_reset_fields handle_render_fields
             handle_close_fields handle_setup_fields)

lemma handle_msg_inv: "session_inv s \<Longrightarrow> session_inv (snd (handle_msg E c rx s))"
proof -
  assume inv: "session_inv s"
  have upd: "\<And>n. session_inv (s\<lparr>op_count := Some n\<rparr>)"
    using inv by (simp add: session_inv_def)
  show ?thesis
    using inv upd
    by (auto simp: handle_msg_def split: sum.splits option.splits prod.splits dest!: dispatch_inv)
qed

lemma closed_inv: "session_inv (snd (closed E s))"
  by (auto simp: closed_def session_inv_def Let_def split: option.splits prod.splits)

lemma reachable_inv: "reachable E s \<Longrightarrow> session_inv s"
proof (induction rule: reachable.induct)
  case reach_init
  show ?case by (simp add: session_inv_def init_server_def)
next
  case (reach_msg s cookie rx)
  then show ?case by (simp add: handle_msg_inv)
next
  case (reach_opened s)
  show ?case by (simp add: session_inv_def opened_def)
next
  case (reach_closed s)
  show ?case by (rule closed_inv)
qed

lemma active_op_count: "reachable E s \<Longrightarrow> active s \<Longrightarrow> \<exists>n. op_count s = Some n"
  using reachable_inv [of E s] by (auto simp: session_inv_def active_def)

lemma active_session_id: "reachable E s \<Longrightarrow> active s \<Longrightarrow> \<exists>sid. session_id s = Some sid"
  using reachable_inv [of E s] by (auto simp: session_inv_def active_def)

text \<open>The concrete session is the state after an accepted connection and one setup.\<close>

lemma toy_session_eq:
  "toy_session =
     snd (handle_msg toy ''abc123'' (Inr (request ''setup'' (PDict [(''env_name'', PStr ''Toy-v0'')])))
            (opened init_server))"
  by (simp add: toy_session_def handle_msg_def request_def opened_def init_server_def
      dispatch_def handle_setup_def toy_def)

lemma reachable_toy_session: "reachable toy toy_session"
  unfolding toy_session_eq by (intro reachable.intros)

lemma active_toy_session: "active toy_session"
  by (simp add: active_def toy_session_def)

subsection \<open>Requests and the session check\<close>

text \<open>
  The server compares a parameter with a \<open>str\<close> (the session id, a method name): for
  that, \<open>==\<close> is equality of the values.
\<close>

lemma py_eq_str: "py_eq v (PStr s) \<longleftrightarrow> v = PStr s"
  by (cases v) auto

lemma handle_msg_request:
  "op_count s = Some n \<Longrightarrow>
   handle_msg E c (Inr (request m p)) s =
     (case dispatch E c (PStr m) p (s\<lparr>op_count := Some (n + 1)\<rparr>) of
        (Inr r, s') \<Rightarrow> (Replied (envelope r PNone), s')
      | (Inl x, s') \<Rightarrow> (Replied (envelope PNone (PStr (error_text x))), s'))"
  by (simp add: handle_msg_def request_def)

lemma check_session_id_wrong:
  "subscript params ''session_id'' = Inr p \<Longrightarrow> session_id s = Some sid \<Longrightarrow> p \<noteq> PStr sid \<Longrightarrow>
   check_session_id params s = Inl (Exception ''Wrong session id'')"
  by (simp add: check_session_id_def)

lemma check_session_id_ok:
  "subscript params ''session_id'' = Inr (PStr sid) \<Longrightarrow> session_id s = Some sid \<Longrightarrow>
   check_session_id params s = Inr sid"
  by (simp add: check_session_id_def)

lemma dispatch_wrong_session_id:
  assumes "m \<in> {''step'', ''reset'', ''render'', ''close''}"
    and "check_session_id params s = Inl x"
  shows "dispatch E c (PStr m) params s = (Inl x, s)"
  using assms
  by (auto simp: dispatch_def handle_step_def handle_reset_def handle_render_def handle_close_def)

lemma handle_msg_wrong_session_id:
  assumes "op_count s = Some n" and "session_id s = Some sid"
    and "m \<in> {''step'', ''reset'', ''render'', ''close''}"
    and "subscript params ''session_id'' = Inr p" and "p \<noteq> PStr sid"
  shows "handle_msg E c (Inr (request m params)) s =
           (Replied (envelope PNone (PStr (error_text (Exception ''Wrong session id'')))),
            s\<lparr>op_count := Some (n + 1)\<rparr>)"
proof -
  let ?s1 = "s\<lparr>op_count := Some (n + 1)\<rparr>"
  have "session_id ?s1 = Some sid"
    using assms(2) by simp
  then have "check_session_id params ?s1 = Inl (Exception ''Wrong session id'')"
    using assms(4,5) by (simp add: check_session_id_wrong)
  then have "dispatch E c (PStr m) params ?s1 = (Inl (Exception ''Wrong session id''), ?s1)"
    using assms(3) by (rule dispatch_wrong_session_id [rotated])
  then show ?thesis
    by (simp add: handle_msg_request [OF assms(1)])
qed

lemma is_error_reply_envelope [simp]: "is_error_reply (envelope PNone (PStr msg))"
  by (simp add: is_error_reply_def envelope_def)

lemma run_monitor_no_env:
  "env s = None \<Longrightarrow>
   (case run_monitor E evs s of
      (x, s') \<Rightarrow> x = None \<and> env s' = None \<and> env_calls s' = env_calls s)"
proof (induction evs arbitrary: s)
  case Nil
  then show ?case by simp
next
  case (Cons ev evs)
  show ?case
  proof (cases ev)
    case EVENT_DISCONNECTED
    have c: "closed E s = (None, s\<lparr>env_name := PNone, env := None\<rparr>)"
      using Cons.prems by (simp add: closed_def)
    show ?thesis
      using Cons.IH [of "s\<lparr>env_name := PNone, env := None\<rparr>"]
      by (simp add: EVENT_DISCONNECTED c)
  next
    case EVENT_ACCEPTED
    show ?thesis
      using Cons.IH [of "opened s"] Cons.prems
      by (simp add: EVENT_ACCEPTED opened_def)
  next
    case EVENT_OTHER
    show ?thesis
      using Cons.IH [of s] Cons.prems by (simp add: EVENT_OTHER)
  qed
qed

lemma close_reply_ok:
  assumes "handle_msg E c (Inr (request ''close'' params)) s = (Replied (envelope r PNone), s1)"
  shows "env s1 = None \<and> env_name s1 = PNone \<and> session_id s1 = session_id s \<and>
         (\<exists>n. op_count s = Some n \<and> op_count s1 = Some (n + 1)) \<and>
         (\<exists>sid. session_id s = Some sid \<and> subscript params ''session_id'' = Inr (PStr sid) \<and>
                r = PDict [(''session_id'', PStr sid)]) \<and>
         env_calls s1 = env_calls s @ (if env s = None then [] else [Call_close])"
proof (cases "op_count s")
  case None
  then show ?thesis
    using assms by (simp add: handle_msg_def request_def)
next
  case (Some n)
  show ?thesis
    using assms Some
    by (auto simp: handle_msg_request [OF Some] dispatch_def handle_close_def check_session_id_def
        envelope_def Let_def
        split: sum.splits option.splits prod.splits if_splits)
qed

lemma no_env_rejects:
  assumes "env s = None" and "op_count s = Some n" and "m \<in> {''step'', ''reset'', ''render''}"
  shows "\<exists>msg. handle_msg E c (Inr (request m params)) s =
           (Replied (envelope PNone (PStr msg)), s\<lparr>op_count := Some (n + 1)\<rparr>)"
proof -
  let ?s1 = "s\<lparr>op_count := Some (n + 1)\<rparr>"
  have e: "env ?s1 = None"
    using assms(1) by simp
  have "\<exists>x. dispatch E c (PStr m) params ?s1 = (Inl x, ?s1)"
  proof -
    consider "m = ''step''" | "m = ''reset''" | "m = ''render''"
      using assms(3) by blast
    then show ?thesis
    proof cases
      case 1
      show ?thesis
        unfolding 1 using e
        by (simp add: dispatch_def handle_step_def split: sum.splits)
    next
      case 2
      show ?thesis
        unfolding 2 using e
        by (simp add: dispatch_def handle_reset_def split: sum.splits)
    next
      case 3
      show ?thesis
        unfolding 3 using e
        by (simp add: dispatch_def handle_render_def split: sum.splits)
    qed
  qed
  then show ?thesis
    by (auto simp: handle_msg_request [OF assms(2)])
qed

lemma run_main_no_env:
  "env s = None \<Longrightarrow> op_count s = Some n \<Longrightarrow>
   \<forall>q\<in>set reqs. \<exists>m p. fst q = Inr (request m p) \<and> m \<in> {''step'', ''reset'', ''render''} \<Longrightarrow>
   (case run_main E reqs s of
      ((txs, crash), s2) \<Rightarrow>
        crash = None \<and> length txs = length reqs \<and> (\<forall>tx\<in>set txs. is_error_reply tx) \<and>
        s2 = s\<lparr>op_count := Some (n + int (length reqs))\<rparr>)"
proof (induction reqs arbitrary: s n)
  case Nil
  then show ?case by simp
next
  case (Cons q reqs)
  obtain rx c where q: "q = (rx, c)"
    by (cases q)
  from Cons.prems(3) q obtain m p where
    rx: "rx = Inr (request m p)" and m: "m \<in> {''step'', ''reset'', ''render''}"
    by auto
  let ?s1 = "s\<lparr>op_count := Some (n + 1)\<rparr>"
  from no_env_rejects [OF Cons.prems(1,2) m, of E c p] obtain msg where
    h: "handle_msg E c (Inr (request m p)) s = (Replied (envelope PNone (PStr msg)), ?s1)"
    by blast
  have rest: "\<forall>q\<in>set reqs. \<exists>m p. fst q = Inr (request m p) \<and> m \<in> {''step'', ''reset'', ''render''}"
    using Cons.prems(3) by simp
  have e1: "env ?s1 = None" and n1: "op_count ?s1 = Some (n + 1)"
    using Cons.prems(1) by simp_all
  from Cons.IH [OF e1 n1 rest] show ?case
    by (auto simp: q rx h split: prod.splits)
qed

lemma toy_close:
  "handle_msg toy ''c'' (Inr (request ''close'' (PDict [(''session_id'', PStr ''abc123'')]))) toy_session =
     (Replied (envelope (PDict [(''session_id'', PStr ''abc123'')]) PNone), toy_closed)"
  by (simp add: toy_session_def toy_closed_def handle_msg_def request_def dispatch_def
      handle_close_def check_session_id_def toy_def)

section \<open>The claims about the server\<close>

text \<open>
  Claim C1 (session gating), as amended. In a state of a running server with an active
  session whose id is \<open>sid\<close>, a step, reset, render or close request whose
  \<open>session_id\<close> parameter differs from \<open>sid\<close> is answered with the error reply of
  ``Wrong session id'', and the environment, the environment name, the session id and
  the calls made on the environment are as before. A request with the matching id is
  answered with its result when its parameters also hold what the handler reads
  (\<open>action\<close> for step, \<open>mode\<close> and \<open>close\<close> for render) and the environment's
  method returns.
\<close>

theorem session_gating:
  assumes "reachable E s" and "active s" and "session_id s = Some sid" and "env s = Some e"
  shows
    "(\<forall>m params p. m \<in> {''step'', ''reset'', ''render'', ''close''} \<and>
        subscript params ''session_id'' = Inr p \<and> p \<noteq> PStr sid \<longrightarrow>
        (case handle_msg E cookie (Inr (request m params)) s of
           (out, s') \<Rightarrow>
             out = Replied (envelope PNone (PStr (error_text (Exception ''Wrong session id'')))) \<and>
             env s' = env s \<and> env_name s' = env_name s \<and> session_id s' = session_id s \<and>
             env_calls s' = env_calls s)) \<and>
     (\<forall>params action obs reward done info e'.
        subscript params ''session_id'' = Inr (PStr sid) \<and>
        subscript params ''action'' = Inr action \<and>
        env_step E e action = (Inr (obs, reward, done, info), e') \<longrightarrow>
        fst (handle_msg E cookie (Inr (request ''step'' params)) s) =
          Replied (envelope (PDict [(''obs'', obs), (''reward'', reward), (''done'', done),
                                    (''info'', info), (''session_id'', PStr sid)]) PNone)) \<and>
     (\<forall>params obs e'.
        subscript params ''session_id'' = Inr (PStr sid) \<and>
        env_reset E e = (Inr obs, e') \<longrightarrow>
        fst (handle_msg E cookie (Inr (request ''reset'' params)) s) =
          Replied (envelope (PDict [(''obs'', obs), (''session_id'', PStr sid)]) PNone)) \<and>
     (\<forall>params mode cl img e'.
        subscript params ''session_id'' = Inr (PStr sid) \<and>
        subscript params ''mode'' = Inr mode \<and> subscript params ''close'' = Inr cl \<and>
        env_render E e mode cl = (Inr img, e') \<longrightarrow>
        fst (handle_msg E cookie (Inr (request ''render'' params)) s) =
          Replied (envelope (PDict [(''img'', img), (''session_id'', PStr sid)]) PNone)) \<and>
     (\<forall>params e'.
        subscript params ''session_id'' = Inr (PStr sid) \<and>
        env_close E e = (None, e') \<longrightarrow>
        fst (handle_msg E cookie (Inr (request ''close'' params)) s) =
          Replied (envelope (PDict [(''session_id'', PStr sid)]) PNone))"
proof -
  obtain n where n: "op_count s = Some n"
    using active_op_count [OF assms(1,2)] by blast
  let ?s1 = "s\<lparr>op_count := Some (n + 1)\<rparr>"
  have sid1: "session_id ?s1 = Some sid" and env1: "env ?s1 = Some e"
    using assms(3,4) by simp_all
  have wrong: "\<And>m params p. m \<in> {''step'', ''reset'', ''render'', ''close''} \<Longrightarrow>
      subscript params ''session_id'' = Inr p \<Longrightarrow> p \<noteq> PStr sid \<Longrightarrow>
      dispatch E cookie (PStr m) params ?s1 = (Inl (Exception ''Wrong session id''), ?s1)"
    by (rule dispatch_wrong_session_id) (simp_all add: check_session_id_wrong [OF _ sid1])
  have ok: "\<And>params. subscript params ''session_id'' = Inr (PStr sid) \<Longrightarrow>
      check_session_id params ?s1 = Inr sid"
    by (simp add: check_session_id_ok [OF _ sid1])
  have c1: "\<And>m params p. m \<in> {''step'', ''reset'', ''render'', ''close''} \<and>
        subscript params ''session_id'' = Inr p \<and> p \<noteq> PStr sid \<Longrightarrow>
        (case handle_msg E cookie (Inr (request m params)) s of
           (out, s') \<Rightarrow>
             out = Replied (envelope PNone (PStr (error_text (Exception ''Wrong session id'')))) \<and>
             env s' = env s \<and> env_name s' = env_name s \<and> session_id s' = session_id s \<and>
             env_calls s' = env_calls s)"
    by (simp add: handle_msg_request [OF n] wrong)
  have c2: "\<And>params action obs reward done info e'.
        subscript params ''session_id'' = Inr (PStr sid) \<and>
        subscript params ''action'' = Inr action \<and>
        env_step E e action = (Inr (obs, reward, done, info), e') \<Longrightarrow>
        fst (handle_msg E cookie (Inr (request ''step'' params)) s) =
          Replied (envelope (PDict [(''obs'', obs), (''reward'', reward), (''done'', done),
                                    (''info'', info), (''session_id'', PStr sid)]) PNone)"
    using env1 by (simp add: handle_msg_request [OF n] dispatch_def handle_step_def ok)
  have c3: "\<And>params obs e'.
        subscript params ''session_id'' = Inr (PStr sid) \<and>
        env_reset E e = (Inr obs, e') \<Longrightarrow>
        fst (handle_msg E cookie (Inr (request ''reset'' params)) s) =
          Replied (envelope (PDict [(''obs'', obs), (''session_id'', PStr sid)]) PNone)"
    using env1 by (simp add: handle_msg_request [OF n] dispatch_def handle_reset_def ok)
  have c4: "\<And>params mode cl img e'.
        subscript params ''session_id'' = Inr (PStr sid) \<and>
        subscript params ''mode'' = Inr mode \<and> subscript params ''close'' = Inr cl \<and>
        env_render E e mode cl = (Inr img, e') \<Longrightarrow>
        fst (handle_msg E cookie (Inr (request ''render'' params)) s) =
          Replied (envelope (PDict [(''img'', img), (''session_id'', PStr sid)]) PNone)"
    using env1 by (simp add: handle_msg_request [OF n] dispatch_def handle_render_def ok)
  have c5: "\<And>params e'.
        subscript params ''session_id'' = Inr (PStr sid) \<and>
        env_close E e = (None, e') \<Longrightarrow>
        fst (handle_msg E cookie (Inr (request ''close'' params)) s) =
          Replied (envelope (PDict [(''session_id'', PStr sid)]) PNone)"
    using env1 by (simp add: handle_msg_request [OF n] dispatch_def handle_close_def ok)
  show ?thesis
    using c1 c2 c3 c4 c5 by blast
qed

theorem session_gating_witness:
  "reachable toy toy_session \<and> active toy_session \<and>
   session_id toy_session = Some ''abc123'' \<and> env toy_session = Some 0 \<and>
   (case handle_msg toy ''c'' (Inr (request ''step'' (PDict [(''action'', PInt 0), (''session_id'', PStr ''wrong'')]))) toy_session of
      (out, s') \<Rightarrow>
        out = Replied (envelope PNone (PStr (error_text (Exception ''Wrong session id'')))) \<and>
        env s' = Some 0 \<and> env_name s' = PStr ''Toy-v0'' \<and> session_id s' = Some ''abc123'' \<and>
        env_calls s' = []) \<and>
   fst (handle_msg toy ''c'' (Inr (request ''step'' (PDict [(''action'', PInt 0), (''session_id'', PStr ''abc123'')]))) toy_session) =
     Replied (envelope (PDict [(''obs'', PInt 1), (''reward'', PInt 1), (''done'', PBool False),
                               (''info'', PDict []), (''session_id'', PStr ''abc123'')]) PNone)"
proof -
  have sid: "session_id toy_session = Some ''abc123''" and e: "env toy_session = Some 0"
    by (simp_all add: toy_session_def)
  note g = session_gating [OF reachable_toy_session active_toy_session sid e, of "''c''"]
  have r1: "case handle_msg toy ''c'' (Inr (request ''step'' (PDict [(''action'', PInt 0), (''session_id'', PStr ''wrong'')]))) toy_session of
      (out, s') \<Rightarrow>
        out = Replied (envelope PNone (PStr (error_text (Exception ''Wrong session id'')))) \<and>
        env s' = env toy_session \<and> env_name s' = env_name toy_session \<and>
        session_id s' = session_id toy_session \<and> env_calls s' = env_calls toy_session"
    using conjunct1 [OF g, rule_format, of "''step''" "PDict [(''action'', PInt 0), (''session_id'', PStr ''wrong'')]" "PStr ''wrong''"]
    by simp
  have r2: "fst (handle_msg toy ''c'' (Inr (request ''step'' (PDict [(''action'', PInt 0), (''session_id'', PStr ''abc123'')]))) toy_session) =
     Replied (envelope (PDict [(''obs'', PInt 1), (''reward'', PInt 1), (''done'', PBool False),
                               (''info'', PDict []), (''session_id'', PStr ''abc123'')]) PNone)"
    using conjunct1 [OF conjunct2 [OF g], rule_format, of "PDict [(''action'', PInt 0), (''session_id'', PStr ''abc123'')]" "PInt 0" "PInt 1" "PInt 1" "PBool False" "PDict []" 1]
    by (simp add: toy_def)
  show ?thesis
    using r1 r2 reachable_toy_session active_toy_session
    by (simp add: toy_session_def split: prod.splits)
qed

text \<open>
  The claim without the amendment fails: a step request with the matching session id and
  no \<open>action\<close> parameter is answered with an error reply (the KeyError of line 116),
  although no method of the environment was called, so none failed.
\<close>

theorem session_gating_counterexample:
  "reachable toy toy_session \<and> active toy_session \<and> session_id toy_session = Some ''abc123'' \<and>
   subscript (PDict [(''session_id'', PStr ''abc123'')]) ''session_id'' = Inr (PStr ''abc123'') \<and>
   handle_msg toy ''c'' (Inr (request ''step'' (PDict [(''session_id'', PStr ''abc123'')]))) toy_session =
     (Replied (envelope PNone (PStr (error_text (KeyError ''action'')))),
      toy_session\<lparr>op_count := Some 2\<rparr>)"
  using reachable_toy_session active_toy_session
  by (simp add: toy_session_def handle_msg_def request_def dispatch_def handle_step_def
      check_session_id_def)

text \<open>
  Claim C2 (single active session). In a state of a running server with an active
  session, a setup request is answered with the error reply of ``Already set up'', and
  the environment, the environment name and the session id still are those of the first
  setup; no method of the environment is called.
\<close>

theorem second_setup_rejected:
  assumes "reachable E s" and "active s"
  shows "(case handle_msg E cookie (Inr (request ''setup'' params)) s of
           (out, s') \<Rightarrow>
             out = Replied (envelope PNone (PStr (error_text (Exception ''Already set up'')))) \<and>
             env s' = env s \<and> env_name s' = env_name s \<and> session_id s' = session_id s \<and>
             env_calls s' = env_calls s)"
proof -
  obtain n where n: "op_count s = Some n"
    using active_op_count [OF assms] by blast
  have "env_name s \<noteq> PNone"
    using assms(2) by (simp add: active_def)
  then show ?thesis
    by (simp add: handle_msg_request [OF n] dispatch_def handle_setup_def)
qed

theorem second_setup_rejected_witness:
  "reachable toy toy_session \<and> active toy_session \<and>
   (case handle_msg toy ''def456'' (Inr (request ''setup'' (PDict [(''env_name'', PStr ''Toy-v0'')]))) toy_session of
      (out, s') \<Rightarrow>
        out = Replied (envelope PNone (PStr (error_text (Exception ''Already set up'')))) \<and>
        env s' = Some 0 \<and> env_name s' = PStr ''Toy-v0'' \<and> session_id s' = Some ''abc123'' \<and>
        env_calls s' = [])"
  using second_setup_rejected [OF reachable_toy_session active_toy_session, of "''def456''" "PDict [(''env_name'', PStr ''Toy-v0'')]"]
    reachable_toy_session active_toy_session
  by (simp add: toy_session_def)

text \<open>
  Claim C3 (a decoding failure is not fatal to the loop) does not hold of the code.
  \<open>load_msg\<close> is called on line 71, before the \<open>try\<close> of line 86: its exception
  leaves \<open>handle_msg\<close> with no reply sent and ends \<open>run_main\<close>, whatever requests
  follow.
\<close>

theorem decode_failure_ends_loop:
  "handle_msg E cookie (Inl x) s = (Crashed x, s) \<and>
   run_main E ((Inl x, cookie) # rest) s = (([], Some x), s)"
  by (simp add: handle_msg_def)

text \<open>
  Claim C4 (text of an error reply), as amended. Whenever the dispatch of a request
  raises, the reply has a null result and its error is \<open>str\<close> of the exception's type,
  a colon and a space, and then the exception's message unchanged (line 102). So a step
  request with a session id that does not match is answered with the error
  \<open><class 'Exception'>: Wrong session id\<close>. (Under Python 2 the type prints as
  \<open><type 'exceptions.Exception'>\<close>; the message is prefixed there too.)
\<close>

theorem error_reply_text:
  "(\<forall>rpc rpc_method rpc_params n x s'.
      py_get rpc ''method'' = Inr rpc_method \<and> py_get rpc ''params'' = Inr rpc_params \<and>
      op_count s = Some n \<and>
      dispatch E cookie rpc_method rpc_params (s\<lparr>op_count := Some (n + 1)\<rparr>) = (Inl x, s') \<longrightarrow>
      handle_msg E cookie (Inr rpc) s =
        (Replied (envelope PNone (PStr (type_str x @ '': '' @ value_str x))), s')) \<and>
   (\<forall>params p sid.
      reachable E s \<and> active s \<and> session_id s = Some sid \<and>
      subscript params ''session_id'' = Inr p \<and> p \<noteq> PStr sid \<longrightarrow>
      fst (handle_msg E cookie (Inr (request ''step'' params)) s) =
        Replied (envelope PNone (PStr ''<class 'Exception'>: Wrong session id'')))"
proof -
  have a: "\<And>rpc rpc_method rpc_params n x s'.
      py_get rpc ''method'' = Inr rpc_method \<and> py_get rpc ''params'' = Inr rpc_params \<and>
      op_count s = Some n \<and>
      dispatch E cookie rpc_method rpc_params (s\<lparr>op_count := Some (n + 1)\<rparr>) = (Inl x, s') \<Longrightarrow>
      handle_msg E cookie (Inr rpc) s =
        (Replied (envelope PNone (PStr (type_str x @ '': '' @ value_str x))), s')"
    by (simp add: handle_msg_def error_text_def)
  have b: "\<And>params p sid.
      reachable E s \<and> active s \<and> session_id s = Some sid \<and>
      subscript params ''session_id'' = Inr p \<and> p \<noteq> PStr sid \<Longrightarrow>
      fst (handle_msg E cookie (Inr (request ''step'' params)) s) =
        Replied (envelope PNone (PStr ''<class 'Exception'>: Wrong session id''))"
  proof -
    fix params p sid
    assume h: "reachable E s \<and> active s \<and> session_id s = Some sid \<and>
      subscript params ''session_id'' = Inr p \<and> p \<noteq> PStr sid"
    then obtain n where n: "op_count s = Some n"
      using active_op_count by blast
    have "handle_msg E cookie (Inr (request ''step'' params)) s =
           (Replied (envelope PNone (PStr (error_text (Exception ''Wrong session id'')))),
            s\<lparr>op_count := Some (n + 1)\<rparr>)"
      using h by (intro handle_msg_wrong_session_id [OF n, where sid = sid]) blast+
    then show "fst (handle_msg E cookie (Inr (request ''step'' params)) s) =
        Replied (envelope PNone (PStr ''<class 'Exception'>: Wrong session id''))"
      by (simp add: error_text_def Exception_def str_class_def sq_def)
  qed
  show ?thesis
    using a b by blast
qed

theorem error_reply_text_witness:
  "reachable toy toy_session \<and> active toy_session \<and> session_id toy_session = Some ''abc123'' \<and>
   subscript (PDict [(''action'', PInt 0), (''session_id'', PStr ''wrong'')]) ''session_id'' = Inr (PStr ''wrong'') \<and>
   PStr ''wrong'' \<noteq> PStr ''abc123'' \<and>
   fst (handle_msg toy ''c'' (Inr (request ''step'' (PDict [(''action'', PInt 0), (''session_id'', PStr ''wrong'')]))) toy_session) =
     Replied (envelope PNone (PStr ''<class 'Exception'>: Wrong session id''))"
proof -
  have h: "reachable toy toy_session \<and> active toy_session \<and> session_id toy_session = Some ''abc123'' \<and>
   subscript (PDict [(''action'', PInt 0), (''session_id'', PStr ''wrong'')]) ''session_id'' = Inr (PStr ''wrong'') \<and>
   PStr ''wrong'' \<noteq> PStr ''abc123''"
    using reachable_toy_session active_toy_session by (simp add: toy_session_def)
  show ?thesis
    using h conjunct2 [OF error_reply_text [of toy_session toy "''c''"], rule_format, OF h]
    by simp
qed

text \<open>
  The error of that reply is not the bare message, as the claim has it.
\<close>

theorem error_reply_text_counterexample:
  "reachable toy toy_session \<and> active toy_session \<and> session_id toy_session = Some ''abc123'' \<and>
   fst (handle_msg toy ''c'' (Inr (request ''step'' (PDict [(''action'', PInt 0), (''session_id'', PStr ''wrong'')]))) toy_session)
     \<noteq> Replied (envelope PNone (PStr ''Wrong session id''))"
  using reachable_toy_session active_toy_session
  by (simp add: toy_session_def handle_msg_def request_def dispatch_def handle_step_def
      check_session_id_def envelope_def error_text_def Exception_def str_class_def sq_def)

text \<open>
  Claim C5 (close destroys the session), as amended. After a close request that was
  answered with its result, in a state with an active session: the environment's
  \<open>close\<close> was called and the environment dropped, the environment name is cleared, so
  no session is active. The session id is kept. However many step, reset and render
  requests follow, with whatever session id, each is answered with an error reply and
  none reaches an environment. When such a request carries the old session id and the
  parameters its handler reads (\<open>action\<close> for step, \<open>mode\<close> and \<open>close\<close> for
  render), the error is the missing environment, not ``Wrong session id''. A close
  request with the old session id is answered with its result again, without a call on
  any environment.
\<close>

theorem close_releases_environment:
  assumes "active s"
    and "handle_msg E c (Inr (request ''close'' params)) s = (Replied (envelope r PNone), s1)"
  shows "env s1 = None \<and> env_name s1 = PNone \<and> \<not> active s1 \<and>
         env_calls s1 = env_calls s @ [Call_close] \<and> session_id s1 = session_id s \<and>
         (\<forall>reqs. (\<forall>q\<in>set reqs. \<exists>m p. fst q = Inr (request m p) \<and> m \<in> {''step'', ''reset'', ''render''}) \<longrightarrow>
            (case run_main E reqs s1 of
               ((txs, crash), s2) \<Rightarrow>
                 crash = None \<and> length txs = length reqs \<and> (\<forall>tx\<in>set txs. is_error_reply tx) \<and>
                 env s2 = None \<and> env_name s2 = PNone \<and> session_id s2 = session_id s \<and>
                 env_calls s2 = env_calls s1)) \<and>
         (\<forall>sid c' p'. session_id s = Some sid \<and> subscript p' ''session_id'' = Inr (PStr sid) \<longrightarrow>
            (\<forall>action. subscript p' ''action'' = Inr action \<longrightarrow>
               fst (handle_msg E c' (Inr (request ''step'' p')) s1) =
                 Replied (envelope PNone (PStr (error_text (no_attribute ''NoneType'' ''step''))))) \<and>
            fst (handle_msg E c' (Inr (request ''reset'' p')) s1) =
              Replied (envelope PNone (PStr (error_text (no_attribute ''NoneType'' ''reset'')))) \<and>
            (\<forall>mode cl. subscript p' ''mode'' = Inr mode \<and> subscript p' ''close'' = Inr cl \<longrightarrow>
               fst (handle_msg E c' (Inr (request ''render'' p')) s1) =
                 Replied (envelope PNone (PStr (error_text (no_attribute ''NoneType'' ''render''))))) \<and>
            fst (handle_msg E c' (Inr (request ''close'' p')) s1) =
              Replied (envelope (PDict [(''session_id'', PStr sid)]) PNone) \<and>
            env_calls (snd (handle_msg E c' (Inr (request ''close'' p')) s1)) = env_calls s1)"
proof -
  note ok = close_reply_ok [OF assms(2)]
  from ok obtain n where n: "op_count s1 = Some (n + 1)"
    by blast
  have e: "env s1 = None" and nm: "env_name s1 = PNone" and sid: "session_id s1 = session_id s"
    using ok by blast+
  have na: "\<not> active s1"
    using e by (simp add: active_def)
  have calls: "env_calls s1 = env_calls s @ [Call_close]"
    using ok assms(1) by (simp add: active_def)
  have lst: "\<forall>reqs. (\<forall>q\<in>set reqs. \<exists>m p. fst q = Inr (request m p) \<and> m \<in> {''step'', ''reset'', ''render''}) \<longrightarrow>
            (case run_main E reqs s1 of
               ((txs, crash), s2) \<Rightarrow>
                 crash = None \<and> length txs = length reqs \<and> (\<forall>tx\<in>set txs. is_error_reply tx) \<and>
                 env s2 = None \<and> env_name s2 = PNone \<and> session_id s2 = session_id s \<and>
                 env_calls s2 = env_calls s1)"
  proof (intro allI impI)
    fix reqs :: "((exn + pyval) \<times> string) list"
    assume "\<forall>q\<in>set reqs. \<exists>m p. fst q = Inr (request m p) \<and> m \<in> {''step'', ''reset'', ''render''}"
    from run_main_no_env [OF e n this, of E] obtain txs crash s2 where
      r: "run_main E reqs s1 = ((txs, crash), s2)" and
      p: "crash = None" "length txs = length reqs" "\<forall>tx\<in>set txs. is_error_reply tx"
         "s2 = s1\<lparr>op_count := Some (n + 1 + int (length reqs))\<rparr>"
      by (cases "run_main E reqs s1") auto
    have "env s2 = None \<and> env_name s2 = PNone \<and> session_id s2 = session_id s \<and>
          env_calls s2 = env_calls s1"
      using p(4) e nm sid by simp
    then show "case run_main E reqs s1 of
               ((txs, crash), s2) \<Rightarrow>
                 crash = None \<and> length txs = length reqs \<and> (\<forall>tx\<in>set txs. is_error_reply tx) \<and>
                 env s2 = None \<and> env_name s2 = PNone \<and> session_id s2 = session_id s \<and>
                 env_calls s2 = env_calls s1"
      using p(1,2,3) by (simp add: r)
  qed
  have old: "\<forall>sid c' p'. session_id s = Some sid \<and> subscript p' ''session_id'' = Inr (PStr sid) \<longrightarrow>
            (\<forall>action. subscript p' ''action'' = Inr action \<longrightarrow>
               fst (handle_msg E c' (Inr (request ''step'' p')) s1) =
                 Replied (envelope PNone (PStr (error_text (no_attribute ''NoneType'' ''step''))))) \<and>
            fst (handle_msg E c' (Inr (request ''reset'' p')) s1) =
              Replied (envelope PNone (PStr (error_text (no_attribute ''NoneType'' ''reset'')))) \<and>
            (\<forall>mode cl. subscript p' ''mode'' = Inr mode \<and> subscript p' ''close'' = Inr cl \<longrightarrow>
               fst (handle_msg E c' (Inr (request ''render'' p')) s1) =
                 Replied (envelope PNone (PStr (error_text (no_attribute ''NoneType'' ''render''))))) \<and>
            fst (handle_msg E c' (Inr (request ''close'' p')) s1) =
              Replied (envelope (PDict [(''session_id'', PStr sid)]) PNone) \<and>
            env_calls (snd (handle_msg E c' (Inr (request ''close'' p')) s1)) = env_calls s1"
    using e sid
    by (simp add: handle_msg_request [OF n] dispatch_def handle_step_def handle_reset_def
        handle_render_def handle_close_def check_session_id_def)
  show ?thesis
    by (intro conjI e nm na calls sid lst old)
qed

theorem close_releases_environment_witness:
  "active toy_session \<and>
   handle_msg toy ''c'' (Inr (request ''close'' (PDict [(''session_id'', PStr ''abc123'')]))) toy_session =
     (Replied (envelope (PDict [(''session_id'', PStr ''abc123'')]) PNone), toy_closed) \<and>
   env toy_closed = None \<and> \<not> active toy_closed \<and> session_id toy_closed = Some ''abc123'' \<and>
   (case run_main toy [(Inr (request ''step'' (PDict [(''action'', PInt 0), (''session_id'', PStr ''abc123'')])), ''d''),
                       (Inr (request ''reset'' (PDict [(''session_id'', PStr ''abc123'')])), ''e'')] toy_closed of
      ((txs, crash), s2) \<Rightarrow>
        crash = None \<and> length txs = 2 \<and> (\<forall>tx\<in>set txs. is_error_reply tx) \<and> env s2 = None)"
proof -
  note g = close_releases_environment [OF active_toy_session toy_close]
  have q: "\<forall>q\<in>set [(Inr (request ''step'' (PDict [(''action'', PInt 0), (''session_id'', PStr ''abc123'')])), ''d''),
                       (Inr (request ''reset'' (PDict [(''session_id'', PStr ''abc123'')])), ''e'')].
            \<exists>m p. fst q = Inr (request m p) \<and> m \<in> {''step'', ''reset'', ''render''}"
    by (auto simp: request_def)
  have l: "case run_main toy [(Inr (request ''step'' (PDict [(''action'', PInt 0), (''session_id'', PStr ''abc123'')])), ''d''),
                       (Inr (request ''reset'' (PDict [(''session_id'', PStr ''abc123'')])), ''e'')] toy_closed of
      ((txs, crash), s2) \<Rightarrow>
        crash = None \<and> length txs = 2 \<and> (\<forall>tx\<in>set txs. is_error_reply tx) \<and> env s2 = None"
    using g [THEN conjunct2, THEN conjunct2, THEN conjunct2, THEN conjunct2, THEN conjunct2, THEN conjunct1, THEN spec, THEN mp, OF q]
    by (auto split: prod.splits)
  have f: "env toy_closed = None \<and> \<not> active toy_closed \<and> session_id toy_closed = Some ''abc123''"
    by (simp add: toy_closed_def active_def)
  show ?thesis
    using l f by (intro conjI active_toy_session toy_close) simp_all
qed

text \<open>
  The claim without the amendment fails: after the close, a second close request with
  the old session id is answered with its result, and a reset request with the old
  session id is not answered with the session check's error.
\<close>

theorem close_releases_environment_counterexample:
  "active toy_session \<and>
   handle_msg toy ''c'' (Inr (request ''close'' (PDict [(''session_id'', PStr ''abc123'')]))) toy_session =
     (Replied (envelope (PDict [(''session_id'', PStr ''abc123'')]) PNone), toy_closed) \<and>
   fst (handle_msg toy ''c'' (Inr (request ''close'' (PDict [(''session_id'', PStr ''abc123'')]))) toy_closed) =
     Replied (envelope (PDict [(''session_id'', PStr ''abc123'')]) PNone) \<and>
   fst (handle_msg toy ''c'' (Inr (request ''reset'' (PDict [(''session_id'', PStr ''abc123'')]))) toy_closed) \<noteq>
     Replied (envelope PNone (PStr (error_text (Exception ''Wrong session id''))))"
proof -
  have a: "fst (handle_msg toy ''c'' (Inr (request ''close'' (PDict [(''session_id'', PStr ''abc123'')]))) toy_closed) =
     Replied (envelope (PDict [(''session_id'', PStr ''abc123'')]) PNone)"
    by (simp add: toy_closed_def handle_msg_def request_def dispatch_def handle_close_def
        check_session_id_def)
  have b: "fst (handle_msg toy ''c'' (Inr (request ''reset'' (PDict [(''session_id'', PStr ''abc123'')]))) toy_closed) \<noteq>
     Replied (envelope PNone (PStr (error_text (Exception ''Wrong session id''))))"
    by (simp add: toy_closed_def handle_msg_def request_def dispatch_def handle_reset_def
        check_session_id_def envelope_def error_text_def Exception_def no_attribute_def
        AttributeError_def str_class_def sq_def)
  show ?thesis
    by (intro conjI active_toy_session toy_close a b)
qed

text \<open>
  Claim C6 (a new connection starts without a session) does not hold of the code.
  \<open>opened\<close> (lines 58 to 61) clears the environment name and the counter and nothing
  else: the environment, which \<open>closed\<close> and \<open>handle_close\<close> drop, and the session id
  stay. After a setup and an accepted connection with no disconnect between them, no
  session is active and the counter is 0, and yet a step request carrying the previous
  session id passes the check and is served by the previous environment.
\<close>

theorem accepted_keeps_previous_session:
  "reachable toy toy_session \<and> active toy_session \<and> session_id toy_session = Some ''abc123'' \<and>
   run_monitor toy [EVENT_ACCEPTED] toy_session = (None, opened toy_session) \<and>
   \<not> active (opened toy_session) \<and> op_count (opened toy_session) = Some 0 \<and>
   env (opened toy_session) = Some 0 \<and> session_id (opened toy_session) = Some ''abc123'' \<and>
   handle_msg toy ''c'' (Inr (request ''step'' (PDict [(''action'', PInt 0), (''session_id'', PStr ''abc123'')])))
       (opened toy_session) =
     (Replied (envelope (PDict [(''obs'', PInt 1), (''reward'', PInt 1), (''done'', PBool False),
                                (''info'', PDict []), (''session_id'', PStr ''abc123'')]) PNone),
      \<lparr>env = Some 1, env_name = PNone, session_id = Some ''abc123'', op_count = Some 1,
       env_calls = [Call_step (PInt 0)]\<rparr>)"
proof -
  have a: "run_monitor toy [EVENT_ACCEPTED] toy_session = (None, opened toy_session)"
    by simp
  have b: "session_id toy_session = Some ''abc123''"
    by (simp add: toy_session_def)
  have o: "\<not> active (opened toy_session)" "op_count (opened toy_session) = Some 0"
    "env (opened toy_session) = Some 0" "session_id (opened toy_session) = Some ''abc123''"
    by (simp_all add: opened_def active_def toy_session_def)
  have c: "handle_msg toy ''c'' (Inr (request ''step'' (PDict [(''action'', PInt 0), (''session_id'', PStr ''abc123'')])))
       (opened toy_session) =
     (Replied (envelope (PDict [(''obs'', PInt 1), (''reward'', PInt 1), (''done'', PBool False),
                                (''info'', PDict []), (''session_id'', PStr ''abc123'')]) PNone),
      \<lparr>env = Some 1, env_name = PNone, session_id = Some ''abc123'', op_count = Some 1,
       env_calls = [Call_step (PInt 0)]\<rparr>)"
    by (simp add: toy_session_def opened_def handle_msg_def request_def dispatch_def
        handle_step_def check_session_id_def toy_def)
  show ?thesis
    by (intro conjI reachable_toy_session active_toy_session a b o c)
qed

text \<open>
  Claim C7 (a disconnect reclaims the environment, once). When the monitor handles a
  disconnect in a state with an active session, the environment's \<open>close\<close> is called
  exactly once and no session is active afterwards, whatever monitor events follow: after
  a \<open>close\<close> that returned the environment is dropped, and a \<open>close\<close> that raised
  ends the monitor thread. After a close request that was answered with its result, the
  monitor's events call nothing on an environment.
\<close>

theorem disconnect_closes_once:
  "(active s \<longrightarrow>
      (case run_monitor E (EVENT_DISCONNECTED # evs) s of
         (x, s') \<Rightarrow>
           env_calls s' = env_calls s @ [Call_close] \<and> \<not> active s' \<and> (x = None \<longrightarrow> env s' = None))) \<and>
   (\<forall>c params r s1.
      handle_msg E c (Inr (request ''close'' params)) s = (Replied (envelope r PNone), s1) \<longrightarrow>
      (case run_monitor E evs s1 of
         (x, s') \<Rightarrow> env_calls s' = env_calls s1 \<and> \<not> active s'))"
proof -
  have a: "active s \<Longrightarrow>
      (case run_monitor E (EVENT_DISCONNECTED # evs) s of
         (x, s') \<Rightarrow>
           env_calls s' = env_calls s @ [Call_close] \<and> \<not> active s' \<and> (x = None \<longrightarrow> env s' = None))"
  proof -
    assume "active s"
    then obtain e where e: "env s = Some e"
      by (auto simp: active_def)
    obtain x e' where cl: "env_close E e = (x, e')"
      by (cases "env_close E e")
    show ?thesis
    proof (cases x)
      case None
      let ?s1 = "s\<lparr>env_name := PNone, env := None, env_calls := env_calls s @ [Call_close]\<rparr>"
      have c: "closed E s = (None, ?s1)"
        using e cl None by (simp add: closed_def)
      have "env ?s1 = None" by simp
      from run_monitor_no_env [OF this, of E evs] show ?thesis
        by (auto simp: c active_def split: prod.splits)
    next
      case (Some y)
      then show ?thesis
        using e cl by (simp add: closed_def active_def)
    qed
  qed
  have b: "\<And>c params r s1.
      handle_msg E c (Inr (request ''close'' params)) s = (Replied (envelope r PNone), s1) \<Longrightarrow>
      (case run_monitor E evs s1 of
         (x, s') \<Rightarrow> env_calls s' = env_calls s1 \<and> \<not> active s')"
  proof -
    fix c params r s1
    assume "handle_msg E c (Inr (request ''close'' params)) s = (Replied (envelope r PNone), s1)"
    then have "env s1 = None"
      using close_reply_ok by blast
    from run_monitor_no_env [OF this, of E evs] show "case run_monitor E evs s1 of
         (x, s') \<Rightarrow> env_calls s' = env_calls s1 \<and> \<not> active s'"
      by (auto simp: active_def split: prod.splits)
  qed
  show ?thesis
    using a b by blast
qed

theorem disconnect_closes_once_witness:
  "active toy_session \<and>
   (case run_monitor toy [EVENT_DISCONNECTED, EVENT_DISCONNECTED, EVENT_ACCEPTED, EVENT_DISCONNECTED] toy_session of
      (x, s') \<Rightarrow> env_calls s' = [Call_close] \<and> \<not> active s' \<and> x = None \<and> env s' = None)"
  using conjunct1 [OF disconnect_closes_once [of toy_session toy "[EVENT_DISCONNECTED, EVENT_ACCEPTED, EVENT_DISCONNECTED]"]]
    active_toy_session
  by (simp add: toy_session_def toy_def closed_def opened_def)

text \<open>
  Claim C8 (a failing handler is isolated). When the environment's \<open>step\<close> raises
  during a step request of the active session, the request is answered with the error
  reply of that exception and the session is kept; the loop goes on, and a reset request
  with the same session id is answered with the observation that the environment's
  \<open>reset\<close> returns.
\<close>

theorem step_failure_isolated:
  assumes "reachable E s" and "active s" and "session_id s = Some sid" and "env s = Some e"
    and "subscript p1 ''session_id'' = Inr (PStr sid)" and "subscript p1 ''action'' = Inr a"
    and "env_step E e a = (Inl x, e1)"
    and "subscript p2 ''session_id'' = Inr (PStr sid)"
    and "env_reset E e1 = (Inr obs, e2)"
  shows "(case handle_msg E c1 (Inr (request ''step'' p1)) s of
            (out, s') \<Rightarrow>
              out = Replied (envelope PNone (PStr (error_text x))) \<and>
              env s' = Some e1 \<and> env_name s' = env_name s \<and> session_id s' = session_id s) \<and>
         fst (run_main E [(Inr (request ''step'' p1), c1), (Inr (request ''reset'' p2), c2)] s) =
           ([envelope PNone (PStr (error_text x)),
             envelope (PDict [(''obs'', obs), (''session_id'', PStr sid)]) PNone], None)"
proof -
  obtain n where n: "op_count s = Some n"
    using active_op_count [OF assms(1,2)] by blast
  let ?s1 = "s\<lparr>op_count := Some (n + 1), env := Some e1, env_calls := env_calls s @ [Call_step a]\<rparr>"
  have s1: "handle_msg E c1 (Inr (request ''step'' p1)) s = (Replied (envelope PNone (PStr (error_text x))), ?s1)"
    using assms(3-7)
    by (simp add: handle_msg_request [OF n] dispatch_def handle_step_def check_session_id_def)
  have n1: "op_count ?s1 = Some (n + 1)"
    by simp
  obtain s2 where s2: "handle_msg E c2 (Inr (request ''reset'' p2)) ?s1 =
      (Replied (envelope (PDict [(''obs'', obs), (''session_id'', PStr sid)]) PNone), s2)"
    using assms(3,8,9)
    by (simp add: handle_msg_request [OF n1] dispatch_def handle_reset_def check_session_id_def)
  have "fst (run_main E [(Inr (request ''step'' p1), c1), (Inr (request ''reset'' p2), c2)] s) =
           ([envelope PNone (PStr (error_text x)),
             envelope (PDict [(''obs'', obs), (''session_id'', PStr sid)]) PNone], None)"
    by (simp add: s1 s2)
  then show ?thesis
    by (simp add: s1)
qed

theorem step_failure_isolated_witness:
  "reachable toy toy_session \<and> active toy_session \<and>
   env_step toy 0 (PInt 7) = (Inl (Exn (str_class ''ValueError'') ''invalid action''), 0) \<and>
   fst (run_main toy [(Inr (request ''step'' (PDict [(''action'', PInt 7), (''session_id'', PStr ''abc123'')])), ''c1''),
                      (Inr (request ''reset'' (PDict [(''session_id'', PStr ''abc123'')])), ''c2'')] toy_session) =
     ([envelope PNone (PStr (error_text (Exn (str_class ''ValueError'') ''invalid action''))),
       envelope (PDict [(''obs'', PInt 0), (''session_id'', PStr ''abc123'')]) PNone], None)"
proof -
  have sid: "session_id toy_session = Some ''abc123''" and e: "env toy_session = Some 0"
    by (simp_all add: toy_session_def)
  have st: "env_step toy 0 (PInt 7) = (Inl (Exn (str_class ''ValueError'') ''invalid action''), 0)"
    by (simp add: toy_def)
  have rs: "env_reset toy 0 = (Inr (PInt 0), 0)"
    by (simp add: toy_def)
  have p1: "subscript (PDict [(''action'', PInt 7), (''session_id'', PStr ''abc123'')]) ''session_id'' = Inr (PStr ''abc123'')"
    and p1a: "subscript (PDict [(''action'', PInt 7), (''session_id'', PStr ''abc123'')]) ''action'' = Inr (PInt 7)"
    and p2: "subscript (PDict [(''session_id'', PStr ''abc123'')]) ''session_id'' = Inr (PStr ''abc123'')"
    by simp_all
  note g = step_failure_isolated [OF reachable_toy_session active_toy_session sid e p1 p1a st p2 rs,
      of "''c1''" "''c2''"]
  show ?thesis
    by (intro conjI reachable_toy_session active_toy_session st conjunct2 [OF g])
qed

section \<open>Properties of the client\<close>

subsection \<open>Scanning the URL\<close>

lemma takeWhile_stop:
  "\<not> P a \<Longrightarrow> takeWhile P (xs @ a # ys) = takeWhile P xs"
  by (induction xs) auto

lemma dropWhile_stop:
  "\<not> P a \<Longrightarrow> dropWhile P (xs @ a # ys) = dropWhile P xs @ a # ys"
  by (induction xs) auto

lemma dollar_not_word: "\<not> is_word_char CHR ''$''"
  by (simp add: is_word_char_def)

lemma re_sub_env_append_dollar:
  "re_sub_env environ (pre @ CHR ''$'' # rest) =
     (fst (re_sub_env environ pre) @ fst (re_sub_env environ (CHR ''$'' # rest)),
      snd (re_sub_env environ pre) @ snd (re_sub_env environ (CHR ''$'' # rest)))"
proof (induction environ pre rule: re_sub_env.induct)
  case (1 environ)
  show ?case by (simp del: re_sub_env.simps(2) add: re_sub_env.simps(1))
next
  case (2 environ c cs)
  let ?all = "cs @ CHR ''$'' # rest"
  have tw: "takeWhile is_word_char ?all = takeWhile is_word_char cs"
    using dollar_not_word by (simp add: takeWhile_stop)
  have dw: "dropWhile is_word_char ?all = dropWhile is_word_char cs @ CHR ''$'' # rest"
    using dollar_not_word by (simp add: dropWhile_stop)
  have lhs: "re_sub_env environ ((c # cs) @ CHR ''$'' # rest) =
     (if c = CHR ''$'' \<and> takeWhile is_word_char cs \<noteq> []
      then
        (case expand_env environ (takeWhile is_word_char cs) of (ret, w1) \<Rightarrow>
           (case re_sub_env environ (dropWhile is_word_char cs @ CHR ''$'' # rest) of (out, w2) \<Rightarrow>
              ((case ret of None \<Rightarrow> [] | Some v \<Rightarrow> v) @ out, w1 @ w2)))
      else
        (case re_sub_env environ ?all of (out, w2) \<Rightarrow> (c # out, w2)))"
    by (simp only: append_Cons re_sub_env.simps(2) tw dw)
  show ?case
  proof (cases "c = CHR ''$'' \<and> takeWhile is_word_char cs \<noteq> []")
    case True
    obtain ret w1 where ex: "expand_env environ (takeWhile is_word_char cs) = (ret, w1)"
      by (cases "expand_env environ (takeWhile is_word_char cs)")
    have r: "re_sub_env environ (c # cs) =
       ((case ret of None \<Rightarrow> [] | Some v \<Rightarrow> v) @ fst (re_sub_env environ (dropWhile is_word_char cs)),
        w1 @ snd (re_sub_env environ (dropWhile is_word_char cs)))"
      using True ex by (simp only: re_sub_env.simps(2) if_True split: prod.splits) simp
    show ?thesis
      unfolding lhs r using "2.IH"(1) [OF True ex [symmetric]] True ex
      by (simp del: re_sub_env.simps)
  next
    case False
    have r: "re_sub_env environ (c # cs) =
       (c # fst (re_sub_env environ cs), snd (re_sub_env environ cs))"
      using False by (simp only: re_sub_env.simps(2) if_False split: prod.splits) simp
    show ?thesis
      unfolding lhs r using "2.IH"(2) [OF False] False
      by (auto simp del: re_sub_env.simps)
  qed
qed

lemma takeWhile_name:
  assumes "\<forall>ch\<in>set name. is_word_char ch" and "post = [] \<or> \<not> is_word_char (hd post)"
  shows "takeWhile is_word_char (name @ post) = name"
    and "dropWhile is_word_char (name @ post) = post"
  using assms by (cases post; simp add: takeWhile_append dropWhile_append)+

lemma re_sub_env_reference:
  assumes "name \<noteq> []" and "\<forall>ch\<in>set name. is_word_char ch"
    and "post = [] \<or> \<not> is_word_char (hd post)"
  shows "re_sub_env environ (CHR ''$'' # name @ post) =
           ((case environ name of None \<Rightarrow> [] | Some v \<Rightarrow> v) @ fst (re_sub_env environ post),
            snd (expand_env environ name) @ snd (re_sub_env environ post))"
  using assms(1)
  by (simp add: takeWhile_name [OF assms(2,3)] expand_env_def split: prod.splits option.splits)

subsection \<open>Requests sent on the socket\<close>

lemma rpc_sent:
  "rpc T method params sock = (r, sock') \<Longrightarrow>
   sent sock' = sent sock @ [request method params] \<and> sock_url sock' = sock_url sock \<and>
   peer sock' = snd (serve T (peer sock) (request method params))"
  by (auto simp: rpc_def Let_def split: prod.splits sum.splits if_splits)

lemma rpc_ok:
  assumes "serve T (peer sock) (request method params) = (Inr ans, c')"
    and "subscript ans ''error'' = Inr PNone" and "subscript ans ''result'' = Inr r"
  shows "rpc T method params sock =
           (Inr r, sock\<lparr>sent := sent sock @ [request method params], peer := c'\<rparr>)"
  using assms by (simp add: rpc_def Let_def)

lemma rpc_error:
  assumes "serve T (peer sock) (request method params) = (Inr ans, c')"
    and "subscript ans ''error'' = Inr err" and "err \<noteq> PNone"
  shows "rpc T method params sock =
           (Inl (Exception (py_str err)), sock\<lparr>sent := sent sock @ [request method params], peer := c'\<rparr>)"
  using assms by (simp add: rpc_def Let_def)

lemma client_reset_proxy:
  "client_reset T self = (r, self') \<Longrightarrow>
   proxy self' = snd (rpc T ''reset'' (PDict [(''session_id'', client_session_id self)]) (proxy self)) \<and>
   client_session_id self' = client_session_id self"
  by (auto simp: client_reset_def Let_def split: prod.splits sum.splits if_splits)

lemma client_reset_socket:
  assumes "client_reset T self = (r, self')"
  shows "sock_url (proxy self') = sock_url (proxy self) \<and>
         sent (proxy self') = sent (proxy self) @ [request ''reset'' (PDict [(''session_id'', client_session_id self)])]"
proof -
  obtain q sock' where rp: "rpc T ''reset'' (PDict [(''session_id'', client_session_id self)]) (proxy self) = (q, sock')"
    by (cases "rpc T ''reset'' (PDict [(''session_id'', client_session_id self)]) (proxy self)")
  show ?thesis
    using client_reset_proxy [OF assms] rpc_sent [OF rp] by (simp add: rp)
qed

lemma client_init_after_setup:
  assumes "connect T (fst (re_sub_env environ url)) = Inr c0"
    and "serve T c0 (request ''setup'' kwargs) = (Inr ans1, c1)"
    and "subscript ans1 ''error'' = Inr PNone" and "subscript ans1 ''result'' = Inr setup_result"
    and "subscript setup_result ''action_space'' = Inr asp"
    and "subscript setup_result ''observation_space'' = Inr osp"
    and "subscript setup_result ''reward_range'' = Inr rr" and "py_tuple rr = Inr rrt"
    and "subscript setup_result ''session_id'' = Inr sid"
  shows "snd (client_init T environ url kwargs) =
     (case client_reset T
             \<lparr>proxy = \<lparr>sock_url = fst (re_sub_env environ url), sent = [request ''setup'' kwargs], peer = c1\<rparr>,
              client_action_space = asp, client_observation_space = osp,
              client_reward_range = rrt, client_session_id = sid\<rparr> of
        (Inl x, self') \<Rightarrow> Inl (x, Some (proxy self'))
      | (Inr obs, self') \<Rightarrow> Inr self')"
proof -
  obtain url' w where u: "re_sub_env environ url = (url', w)"
    by (cases "re_sub_env environ url")
  let ?sock0 = "\<lparr>sock_url = url', sent = [], peer = c0\<rparr>"
  have c: "connect T url' = Inr c0"
    using assms(1) by (simp add: u)
  have r: "rpc T ''setup'' kwargs ?sock0 =
      (Inr setup_result, \<lparr>sock_url = url', sent = [request ''setup'' kwargs], peer = c1\<rparr>)"
    using rpc_ok [of T ?sock0 "''setup''" kwargs ans1 c1 setup_result] assms(2,3,4) by simp
  show ?thesis
    using assms(5-9)
    by (simp add: client_init_def client_socket_init_def u c r gym_Env_reset_def)
qed

lemma client_init_socket:
  assumes "re_sub_env environ url = (url', w)" and "connect T url' = Inr c"
  shows "\<exists>so. final_socket (snd (client_init T environ url kwargs)) = Some so \<and>
              sock_url so = url' \<and> take 1 (sent so) = [request ''setup'' kwargs]"
proof -
  let ?sock0 = "\<lparr>sock_url = url', sent = [], peer = c\<rparr>"
  define good :: "exn \<times> 'a client_socket option + 'a client \<Rightarrow> bool" where
    "good res \<longleftrightarrow> (\<exists>so. final_socket res = Some so \<and> sock_url so = url' \<and>
                      take 1 (sent so) = [request ''setup'' kwargs])" for res
  obtain r sock1 where rp: "rpc T ''setup'' kwargs ?sock0 = (r, sock1)"
    by (cases "rpc T ''setup'' kwargs ?sock0")
  have s1: "sock_url sock1 = url'" "sent sock1 = [request ''setup'' kwargs]"
    using rpc_sent [OF rp] by simp_all
  have g1: "\<And>x. good (Inl (x, Some sock1))"
    using s1 by (simp add: good_def final_socket_def)
  have g2: "\<And>a b d e.
      good (case client_reset T \<lparr>proxy = sock1, client_action_space = a,
                                 client_observation_space = b, client_reward_range = d,
                                 client_session_id = e\<rparr> of
              (Inl x, self') \<Rightarrow> Inl (x, Some (proxy self'))
            | (Inr obs, self') \<Rightarrow> Inr self')"
  proof -
    fix a b d e
    let ?self = "\<lparr>proxy = sock1, client_action_space = a, client_observation_space = b,
                   client_reward_range = d, client_session_id = e\<rparr>"
    obtain r' self' where cr: "client_reset T ?self = (r', self')"
      by (cases "client_reset T ?self")
    have "sock_url (proxy self') = url' \<and> take 1 (sent (proxy self')) = [request ''setup'' kwargs]"
      using client_reset_socket [OF cr] s1 by simp
    then show "good (case client_reset T ?self of
              (Inl x, self') \<Rightarrow> Inl (x, Some (proxy self'))
            | (Inr obs, self') \<Rightarrow> Inr self')"
      by (cases r') (simp_all add: cr good_def final_socket_def)
  qed
  have "good (snd (client_init T environ url kwargs))"
    unfolding client_init_def gym_Env_reset_def client_socket_init_def
    by (simp add: assms rp g1 g2 split: sum.splits)
  then show ?thesis
    by (simp add: good_def)
qed

section \<open>The claims about the client\<close>

text \<open>
  A name runs over every word character, also outside ASCII: with \<open>HOST\<close> followed by
  the letter of code point 233, the name looked up and reported is the five characters.
\<close>

lemma re_sub_env_latin1_name:
  "re_sub_env Map.empty (''tcp://$HOST'' @ [CHR 0xE9] @ '':1'') =
     (''tcp://:1'', [''No environment var $HOST'' @ [CHR 0xE9] @ '' defined''])"
  by (simp add: is_word_char_def expand_env_def)

text \<open>
  Claim C9 (an unresolved reference in the URL). Let the URL hold the token \<open>$name\<close>,
  where \<open>name\<close> is the whole run of word characters after the dollar sign, and let
  \<open>name\<close> have no value in the process environment. Then the token is replaced by the
  empty string, the rest of the URL is expanded as it would be on its own, and the
  warning for \<open>name\<close> is logged in its place among the warnings. The constructor does
  not fail on it: it logs these warnings, and when the transport connects to the expanded
  URL, the socket is made for that URL and the setup request is sent on it.
\<close>

theorem unresolved_reference_warns:
  assumes "name \<noteq> []" and "\<forall>ch\<in>set name. is_word_char ch"
    and "post = [] \<or> \<not> is_word_char (hd post)" and "environ name = None"
  shows "re_sub_env environ (pre @ CHR ''$'' # name @ post) =
           (fst (re_sub_env environ pre) @ fst (re_sub_env environ post),
            snd (re_sub_env environ pre) @ [''No environment var $'' @ name @ '' defined''] @
            snd (re_sub_env environ post)) \<and>
         fst (client_init T environ (pre @ CHR ''$'' # name @ post) kwargs) =
           snd (re_sub_env environ pre) @ [''No environment var $'' @ name @ '' defined''] @
           snd (re_sub_env environ post) \<and>
         (\<forall>c. connect T (fst (re_sub_env environ pre) @ fst (re_sub_env environ post)) = Inr c \<longrightarrow>
            (\<exists>so. final_socket (snd (client_init T environ (pre @ CHR ''$'' # name @ post) kwargs)) = Some so \<and>
                  sock_url so = fst (re_sub_env environ pre) @ fst (re_sub_env environ post) \<and>
                  take 1 (sent so) = [request ''setup'' kwargs]))"
proof -
  let ?url = "pre @ CHR ''$'' # name @ post"
  let ?out = "fst (re_sub_env environ pre) @ fst (re_sub_env environ post)"
  let ?w = "snd (re_sub_env environ pre) @ [''No environment var $'' @ name @ '' defined''] @
            snd (re_sub_env environ post)"
  have ref: "re_sub_env environ (CHR ''$'' # name @ post) =
      (fst (re_sub_env environ post),
       [''No environment var $'' @ name @ '' defined''] @ snd (re_sub_env environ post))"
    using re_sub_env_reference [OF assms(1-3), of environ] assms(4)
    by (simp add: expand_env_def)
  have a: "re_sub_env environ ?url = (?out, ?w)"
    by (simp only: re_sub_env_append_dollar [of environ pre "name @ post"] ref fst_conv snd_conv)
  have b: "fst (client_init T environ ?url kwargs) = ?w"
    by (simp only: client_init_def a prod.case fst_conv)
  have c: "\<forall>c. connect T ?out = Inr c \<longrightarrow>
            (\<exists>so. final_socket (snd (client_init T environ ?url kwargs)) = Some so \<and>
                  sock_url so = ?out \<and> take 1 (sent so) = [request ''setup'' kwargs])"
  proof (intro allI impI)
    fix c
    assume "connect T ?out = Inr c"
    from client_init_socket [OF a this]
    show "\<exists>so. final_socket (snd (client_init T environ ?url kwargs)) = Some so \<and>
                  sock_url so = ?out \<and> take 1 (sent so) = [request ''setup'' kwargs]" .
  qed
  show ?thesis
    by (intro conjI a b c)
qed

theorem unresolved_reference_warns_witness:
  "''HOST'' \<noteq> [] \<and> list_all is_word_char ''HOST'' \<and> \<not> is_word_char (hd '':6911'') \<and>
   [''PORT'' \<mapsto> ''6911''] ''HOST'' = None \<and>
   re_sub_env [''PORT'' \<mapsto> ''6911''] ''tcp://$HOST:6911'' =
     (''tcp://:6911'', [''No environment var $HOST defined'']) \<and>
   fst (client_init (scripted []) [''PORT'' \<mapsto> ''6911''] ''tcp://$HOST:6911'' toy_kwargs) =
     [''No environment var $HOST defined'']"
proof -
  have h1: "''HOST'' \<noteq> []" by simp
  have h2: "\<forall>ch\<in>set ''HOST''. is_word_char ch" by (simp add: is_word_char_def)
  have h3: "\<not> is_word_char (hd '':6911'')" by (simp add: is_word_char_def)
  have h3': "'':6911'' = [] \<or> \<not> is_word_char (hd '':6911'')" using h3 by simp
  have h4: "[''PORT'' \<mapsto> ''6911''] ''HOST'' = None" by simp
  have pre: "re_sub_env [''PORT'' \<mapsto> ''6911''] ''tcp://'' = (''tcp://'', [])"
    by simp
  have post: "re_sub_env [''PORT'' \<mapsto> ''6911''] '':6911'' = ('':6911'', [])"
    by simp
  note g = unresolved_reference_warns [where name = "''HOST''" and post = "'':6911''"
      and environ = "[''PORT'' \<mapsto> ''6911'']" and pre = "''tcp://''" and T = "scripted []"
      and kwargs = toy_kwargs, OF h1 h2 h3' h4]
  have a: "re_sub_env [''PORT'' \<mapsto> ''6911''] ''tcp://$HOST:6911'' =
     (''tcp://:6911'', [''No environment var $HOST defined''])"
    using conjunct1 [OF g] by (simp add: pre post)
  have b: "fst (client_init (scripted []) [''PORT'' \<mapsto> ''6911''] ''tcp://$HOST:6911'' toy_kwargs) =
     [''No environment var $HOST defined'']"
    using conjunct1 [OF conjunct2 [OF g]] by (simp add: pre post)
  have h2': "list_all is_word_char ''HOST''"
    using h2 by (simp add: list_all_iff)
  show ?thesis
    by (intro conjI h1 h2' h3 h4 a b)
qed

text \<open>
  Claim C10 (the constructor resets). When the connection is made and the setup request
  is answered with a result that holds the three descriptors and a session id, the
  constructor sends a reset request with that session id next, before it returns or
  raises: the two requests are all that was sent. If the reset is answered with an error
  reply, the constructor raises an exception carrying that error; if it is answered with
  a result whose session id differs from the one of the setup (by the \<open>!=\<close> of line 87),
  the constructor raises ``Wrong session id''; if the session ids are equal and an
  observation comes with them, the constructor returns.
\<close>

theorem init_issues_reset:
  assumes "connect T (fst (re_sub_env environ url)) = Inr c0"
    and "serve T c0 (request ''setup'' kwargs) = (Inr ans1, c1)"
    and "subscript ans1 ''error'' = Inr PNone" and "subscript ans1 ''result'' = Inr setup_result"
    and "subscript setup_result ''action_space'' = Inr asp"
    and "subscript setup_result ''observation_space'' = Inr osp"
    and "subscript setup_result ''reward_range'' = Inr rr" and "py_tuple rr = Inr rrt"
    and "subscript setup_result ''session_id'' = Inr sid"
    and "serve T c1 (request ''reset'' (PDict [(''session_id'', sid)])) = (rx2, c2)"
  shows "final_socket (snd (client_init T environ url kwargs)) =
           Some \<lparr>sock_url = fst (re_sub_env environ url),
                 sent = [request ''setup'' kwargs, request ''reset'' (PDict [(''session_id'', sid)])],
                 peer = c2\<rparr> \<and>
         (\<forall>ans2 err. rx2 = Inr ans2 \<and> subscript ans2 ''error'' = Inr err \<and> err \<noteq> PNone \<longrightarrow>
            (\<exists>so. snd (client_init T environ url kwargs) = Inl (Exception (py_str err), so))) \<and>
         (\<forall>ans2 ret sid2. rx2 = Inr ans2 \<and> subscript ans2 ''error'' = Inr PNone \<and>
            subscript ans2 ''result'' = Inr ret \<and> subscript ret ''session_id'' = Inr sid2 \<and>
            \<not> py_eq sid2 sid \<longrightarrow>
            (\<exists>so. snd (client_init T environ url kwargs) = Inl (Exception ''Wrong session id'', so))) \<and>
         (\<forall>ans2 ret sid2 obs. rx2 = Inr ans2 \<and> subscript ans2 ''error'' = Inr PNone \<and>
            subscript ans2 ''result'' = Inr ret \<and> subscript ret ''session_id'' = Inr sid2 \<and>
            py_eq sid2 sid \<and> subscript ret ''obs'' = Inr obs \<longrightarrow>
            (\<exists>self. snd (client_init T environ url kwargs) = Inr self \<and> client_session_id self = sid))"
proof -
  let ?url = "fst (re_sub_env environ url)"
  let ?sock1 = "\<lparr>sock_url = ?url, sent = [request ''setup'' kwargs], peer = c1\<rparr>"
  let ?self = "\<lparr>proxy = ?sock1, client_action_space = asp, client_observation_space = osp,
                client_reward_range = rrt, client_session_id = sid\<rparr>"
  let ?sock2 = "\<lparr>sock_url = ?url,
                 sent = [request ''setup'' kwargs, request ''reset'' (PDict [(''session_id'', sid)])],
                 peer = c2\<rparr>"
  note init = client_init_after_setup [OF assms(1-9)]
  obtain r self' where cr: "client_reset T ?self = (r, self')"
    by (cases "client_reset T ?self")
  obtain q sock' where rp: "rpc T ''reset'' (PDict [(''session_id'', sid)]) ?sock1 = (q, sock')"
    by (cases "rpc T ''reset'' (PDict [(''session_id'', sid)]) ?sock1")
  have "sock' = ?sock2"
    using rpc_sent [OF rp] assms(10) by simp
  then have px: "proxy self' = ?sock2"
    using client_reset_proxy [OF cr] rp by simp
  have fin: "final_socket (snd (client_init T environ url kwargs)) = Some ?sock2"
    using px by (simp add: init cr final_socket_def split: sum.splits)
  have err: "\<forall>ans2 err. rx2 = Inr ans2 \<and> subscript ans2 ''error'' = Inr err \<and> err \<noteq> PNone \<longrightarrow>
            (\<exists>so. snd (client_init T environ url kwargs) = Inl (Exception (py_str err), so))"
  proof (intro allI impI)
    fix ans2 err
    assume h: "rx2 = Inr ans2 \<and> subscript ans2 ''error'' = Inr err \<and> err \<noteq> PNone"
    have "rpc T ''reset'' (PDict [(''session_id'', sid)]) ?sock1 = (Inl (Exception (py_str err)), ?sock2)"
      using rpc_error [of T ?sock1 "''reset''" "PDict [(''session_id'', sid)]" ans2 c2 err] h assms(10)
      by simp
    then have "client_reset T ?self = (Inl (Exception (py_str err)), ?self\<lparr>proxy := ?sock2\<rparr>)"
      by (simp add: client_reset_def)
    then show "\<exists>so. snd (client_init T environ url kwargs) = Inl (Exception (py_str err), so)"
      by (simp add: init)
  qed
  have ok: "\<And>ans2 ret. rx2 = Inr ans2 \<and> subscript ans2 ''error'' = Inr PNone \<and>
            subscript ans2 ''result'' = Inr ret \<Longrightarrow>
            rpc T ''reset'' (PDict [(''session_id'', sid)]) ?sock1 = (Inr ret, ?sock2)"
  proof -
    fix ans2 ret
    assume h: "rx2 = Inr ans2 \<and> subscript ans2 ''error'' = Inr PNone \<and>
            subscript ans2 ''result'' = Inr ret"
    show "rpc T ''reset'' (PDict [(''session_id'', sid)]) ?sock1 = (Inr ret, ?sock2)"
      using rpc_ok [of T ?sock1 "''reset''" "PDict [(''session_id'', sid)]" ans2 c2 ret] h assms(10)
      by simp
  qed
  have wrong: "\<forall>ans2 ret sid2. rx2 = Inr ans2 \<and> subscript ans2 ''error'' = Inr PNone \<and>
            subscript ans2 ''result'' = Inr ret \<and> subscript ret ''session_id'' = Inr sid2 \<and>
            \<not> py_eq sid2 sid \<longrightarrow>
            (\<exists>so. snd (client_init T environ url kwargs) = Inl (Exception ''Wrong session id'', so))"
  proof (intro allI impI)
    fix ans2 ret sid2
    assume h: "rx2 = Inr ans2 \<and> subscript ans2 ''error'' = Inr PNone \<and>
            subscript ans2 ''result'' = Inr ret \<and> subscript ret ''session_id'' = Inr sid2 \<and>
            \<not> py_eq sid2 sid"
    then have "rpc T ''reset'' (PDict [(''session_id'', sid)]) ?sock1 = (Inr ret, ?sock2)"
      using ok by blast
    then have "client_reset T ?self = (Inl (Exception ''Wrong session id''), ?self\<lparr>proxy := ?sock2\<rparr>)"
      using h by (simp add: client_reset_def)
    then show "\<exists>so. snd (client_init T environ url kwargs) = Inl (Exception ''Wrong session id'', so)"
      by (simp add: init)
  qed
  have good: "\<forall>ans2 ret sid2 obs. rx2 = Inr ans2 \<and> subscript ans2 ''error'' = Inr PNone \<and>
            subscript ans2 ''result'' = Inr ret \<and> subscript ret ''session_id'' = Inr sid2 \<and>
            py_eq sid2 sid \<and> subscript ret ''obs'' = Inr obs \<longrightarrow>
            (\<exists>self. snd (client_init T environ url kwargs) = Inr self \<and> client_session_id self = sid)"
  proof (intro allI impI)
    fix ans2 ret sid2 obs
    assume h: "rx2 = Inr ans2 \<and> subscript ans2 ''error'' = Inr PNone \<and>
            subscript ans2 ''result'' = Inr ret \<and> subscript ret ''session_id'' = Inr sid2 \<and>
            py_eq sid2 sid \<and> subscript ret ''obs'' = Inr obs"
    then have "rpc T ''reset'' (PDict [(''session_id'', sid)]) ?sock1 = (Inr ret, ?sock2)"
      using ok by blast
    then have "client_reset T ?self = (Inr obs, ?self\<lparr>proxy := ?sock2\<rparr>)"
      using h by (simp add: client_reset_def)
    then show "\<exists>self. snd (client_init T environ url kwargs) = Inr self \<and> client_session_id self = sid"
      by (simp add: init)
  qed
  show ?thesis
    by (intro conjI fin err wrong good)
qed

theorem init_issues_reset_witness:
  "connect (scripted [toy_setup_answer, envelope PNone (PStr ''<class 'ValueError'>: reset failed'')])
     ''tcp://127.0.0.1:6911'' =
     Inr [toy_setup_answer, envelope PNone (PStr ''<class 'ValueError'>: reset failed'')] \<and>
   final_socket (snd (client_init (scripted [toy_setup_answer, envelope PNone (PStr ''<class 'ValueError'>: reset failed'')])
       Map.empty ''tcp://127.0.0.1:6911'' toy_kwargs)) =
     Some \<lparr>sock_url = ''tcp://127.0.0.1:6911'',
           sent = [request ''setup'' toy_kwargs, request ''reset'' (PDict [(''session_id'', PStr ''abc123'')])],
           peer = []\<rparr> \<and>
   (\<exists>so. snd (client_init (scripted [toy_setup_answer, envelope PNone (PStr ''<class 'ValueError'>: reset failed'')])
       Map.empty ''tcp://127.0.0.1:6911'' toy_kwargs) =
     Inl (Exception ''<class 'ValueError'>: reset failed'', so))"
proof -
  let ?a2 = "envelope PNone (PStr ''<class 'ValueError'>: reset failed'')"
  let ?T = "scripted [toy_setup_answer, ?a2]"
  let ?res = "PDict [(''observation_space'', PStr ''Discrete(100)''),
                      (''action_space'', PStr ''Discrete(2)''),
                      (''reward_range'', PList [PInt 0, PInt 1]),
                      (''session_id'', PStr ''abc123'')]"
  have u: "re_sub_env Map.empty ''tcp://127.0.0.1:6911'' = (''tcp://127.0.0.1:6911'', [])"
    by simp
  have c: "connect ?T (fst (re_sub_env Map.empty ''tcp://127.0.0.1:6911'')) = Inr [toy_setup_answer, ?a2]"
    by (simp add: scripted_def)
  have s1: "serve ?T [toy_setup_answer, ?a2] (request ''setup'' toy_kwargs) = (Inr toy_setup_answer, [?a2])"
    by (simp add: scripted_def)
  have e1: "subscript toy_setup_answer ''error'' = Inr PNone"
    and r1: "subscript toy_setup_answer ''result'' = Inr ?res"
    by (simp_all add: toy_setup_answer_def envelope_def)
  have f: "subscript ?res ''action_space'' = Inr (PStr ''Discrete(2)'')"
    "subscript ?res ''observation_space'' = Inr (PStr ''Discrete(100)'')"
    "subscript ?res ''reward_range'' = Inr (PList [PInt 0, PInt 1])"
    "py_tuple (PList [PInt 0, PInt 1]) = Inr [PInt 0, PInt 1]"
    "subscript ?res ''session_id'' = Inr (PStr ''abc123'')"
    by simp_all
  have s2: "serve ?T [?a2] (request ''reset'' (PDict [(''session_id'', PStr ''abc123'')])) = (Inr ?a2, [])"
    by (simp add: scripted_def)
  note g = init_issues_reset [OF c s1 e1 r1 f s2]
  have h: "Inr ?a2 = Inr ?a2 \<and> subscript ?a2 ''error'' = Inr (PStr ''<class 'ValueError'>: reset failed'') \<and>
      PStr ''<class 'ValueError'>: reset failed'' \<noteq> PNone"
    by (simp add: envelope_def)
  have x: "\<exists>so. snd (client_init ?T Map.empty ''tcp://127.0.0.1:6911'' toy_kwargs) =
     Inl (Exception ''<class 'ValueError'>: reset failed'', so)"
    using g [THEN conjunct2, THEN conjunct1, THEN spec, THEN spec, THEN mp, OF h]
    by (simp add: py_str_def)
  have y: "final_socket (snd (client_init ?T Map.empty ''tcp://127.0.0.1:6911'' toy_kwargs)) =
     Some \<lparr>sock_url = ''tcp://127.0.0.1:6911'',
           sent = [request ''setup'' toy_kwargs, request ''reset'' (PDict [(''session_id'', PStr ''abc123'')])],
           peer = []\<rparr>"
    using conjunct1 [OF g] by (simp add: u)
  have c': "connect ?T ''tcp://127.0.0.1:6911'' = Inr [toy_setup_answer, ?a2]"
    by (simp add: scripted_def)
  show ?thesis
    by (intro conjI c' y x)
qed

end
